theory Spec2Isabelle
  imports Main
begin


section \<open>Values, errors and the external collaborators\<close>

text \<open>
  The cells of a row read from the csv are dynamically typed Python values: text, integers,
  booleans or \<open>None\<close>; after normalisation the first cell holds the date object built by
  \<open>arrow\<close>. A Python text is modelled as the list of the bytes of its UTF-8 encoding, so
  every text can be written: a byte below 128 is an ASCII character, and a character beyond
  ASCII is a run of bytes from 128 on (\<open>CHR 0xC3, CHR 0xA3\<close> is the a with tilde of the word
  for "no"). Equality and the substring test on texts are equality and the substring test
  on their encodings.
\<close>

datatype 'd pyval =
    PStr string
  | PInt int
  | PBool bool
  | PNone
  | PDate 'd

type_synonym 'd linha = "'d pyval list"

text \<open>
  The exceptions the code can raise. \<open>ParserError\<close> stands for any exception raised by
  \<open>arrow.get\<close>; \<open>KeyError\<close> carries the missing key and \<open>RelatorioError\<close> its message.
\<close>

datatype error =
    IndexError
  | TypeError
  | AttributeError
  | KeyError string
  | ParserError
  | RelatorioError string

text \<open>
  What the code imports from modules that are not part of the modelled sources: the registry
  \<open>MUNICIPIOS\<close> and \<open>remove_caracteres_especiais\<close> (both from \<open>utils\<close>), and the two ways
  \<open>arrow.get\<close> is called: with the single format \<open>'DD/MM/YYYY'\<close> (\<open>arrow_get\<close>) and with the list
  of five formats (\<open>arrow_get_formatos\<close>). A call of \<open>arrow.get\<close> that raises is \<open>None\<close>. Dates
  are compared with \<open>\<le>\<close> and \<open>=\<close>, so any linear order can stand for them.
  On a text that has characters beyond ASCII, Python's \<open>str.upper\<close> and \<open>str.strip\<close> follow
  the tables of the Unicode database: there they are \<open>upper_unicode\<close> and \<open>strip_unicode\<close>.
\<close>

record 'd externos =
  MUNICIPIOS :: "string list"
  remove_caracteres_especiais :: "string \<Rightarrow> string"
  arrow_get :: "'d pyval \<Rightarrow> 'd option"
  arrow_get_formatos :: "'d pyval \<Rightarrow> 'd option"
  upper_unicode :: "string \<Rightarrow> string"
  strip_unicode :: "string \<Rightarrow> string"

text \<open>Sequencing of statements that may raise: the first exception ends the computation.\<close>

definition entao :: "'e + 'a \<Rightarrow> ('a \<Rightarrow> 'e + 'b) \<Rightarrow> 'e + 'b" where
  "entao r f = (case r of Inl e \<Rightarrow> Inl e | Inr x \<Rightarrow> f x)"

subsection \<open>Python's string operations\<close>

text \<open>\<open>sub in s\<close> for two strings: \<open>sub\<close> occurs in \<open>s\<close> as a contiguous block.\<close>

fun contem :: "string \<Rightarrow> string \<Rightarrow> bool" where
  "contem sub [] = (sub = [])"
| "contem sub (c # cs) = (take (length sub) (c # cs) = sub \<or> contem sub cs)"

text \<open>A text all of whose characters are ASCII.\<close>

definition ascii :: "char \<Rightarrow> bool" where
  "ascii c \<longleftrightarrow> (of_char c :: nat) < 128"

text \<open>
  \<open>str.upper\<close>. On ASCII text it moves the letters \<open>a\<close> to \<open>z\<close> (97 to 122) down by 32
  and leaves every other character; on any other text it is what the Unicode tables say.
\<close>

definition upper_ascii :: "char \<Rightarrow> char" where
  "upper_ascii c =
     (let n = (of_char c :: nat)
      in if 97 \<le> n \<and> n \<le> 122 then char_of (n - 32) else c)"

definition upper :: "'d externos \<Rightarrow> string \<Rightarrow> string" where
  "upper ext s = (if list_all ascii s then map upper_ascii s else upper_unicode ext s)"

text \<open>
  \<open>str.strip\<close> without arguments drops the white space at both ends. The ASCII characters
  that \<open>str.isspace\<close> accepts are 9 to 13 and 28 to 32; on a text with characters beyond
  ASCII the result is what the Unicode tables say.
\<close>

definition isspace :: "char \<Rightarrow> bool" where
  "isspace c =
     (let n = (of_char c :: nat)
      in (9 \<le> n \<and> n \<le> 13) \<or> (28 \<le> n \<and> n \<le> 32))"

definition strip :: "'d externos \<Rightarrow> string \<Rightarrow> string" where
  "strip ext s =
     (if list_all ascii s then rev (dropWhile isspace (rev (dropWhile isspace s)))
      else strip_unicode ext s)"

section \<open>Field normalisation: \<open>trata_dados_linha\<close>\<close>

text \<open>
  \<open>relatorio.py\<close> imports \<open>trata_dados_linha\<close> from the module \<open>utils\<close>; the function is
  modelled from its definition in \<open>parse_relatorio_powerbi.py\<close> (lines 13 to 40), statement by
  statement: a list assignment is a list update, and reading a cell that the row does not
  have raises \<open>IndexError\<close>.
\<close>

definition Nao :: string where
  "Nao = ''N'' @ [CHR 0xC3, CHR 0xA3] @ ''o''"

definition Nao_encontrado :: string where
  "Nao_encontrado = Nao @ '' encontrado''"

text \<open>\<open>if linha[i] in [s1, s2]: linha[i] = None\<close>: the cell equals one of the listed strings.\<close>

definition anula_se_igual :: "nat \<Rightarrow> string list \<Rightarrow> 'd linha \<Rightarrow> error + 'd linha" where
  "anula_se_igual i ss linha =
     (if i < length linha
      then Inr (if linha ! i \<in> set (map PStr ss) then linha[i := PNone] else linha)
      else Inl IndexError)"

text \<open>
  \<open>if s in linha[i]: linha[i] = None\<close>: on a text cell this is the substring test; on a cell
  that is not text (\<open>None\<close>, a number) Python raises \<open>TypeError\<close>.
\<close>

definition anula_se_contem :: "nat \<Rightarrow> string \<Rightarrow> 'd linha \<Rightarrow> error + 'd linha" where
  "anula_se_contem i s linha =
     (if i < length linha
      then (case linha ! i of
              PStr t \<Rightarrow> Inr (if contem s t then linha[i := PNone] else linha)
            | _ \<Rightarrow> Inl TypeError)
      else Inl IndexError)"

text \<open>
  \<open>stringParaBool.get(v, None)\<close>. The dictionary has the keys \<open>"Sim"\<close>, \<open>Nao\<close>, \<open>"-"\<close>,
  \<open>""\<close>, \<open>1\<close> and \<open>2\<close>; Python's \<open>True\<close> equals \<open>1\<close> and hashes alike, so it finds the key \<open>1\<close>.
\<close>

definition stringParaBool :: "'d pyval \<Rightarrow> 'd pyval" where
  "stringParaBool v =
     (if v = PStr ''Sim'' then PBool True
      else if v = PStr Nao then PBool False
      else if v = PStr ''-'' then PNone
      else if v = PStr '''' then PNone
      else if v = PInt 1 \<or> v = PBool True then PBool True
      else if v = PInt 2 then PNone
      else PNone)"

definition converte_data :: "'d externos \<Rightarrow> 'd linha \<Rightarrow> error + 'd linha" where
  "converte_data ext linha =
     (if 0 < length linha
      then (case arrow_get ext (linha ! 0) of
              None \<Rightarrow> Inl ParserError
            | Some d \<Rightarrow> Inr (linha[0 := PDate d]))
      else Inl IndexError)"

definition trata_dados_linha :: "'d externos \<Rightarrow> 'd linha \<Rightarrow> error + 'd linha" where
  "trata_dados_linha ext linha =
     entao (converte_data ext linha) (\<lambda>linha.
     entao (anula_se_igual 2 [''Ignorado'', ''-''] linha) (\<lambda>linha.
     entao (anula_se_contem 3 ''-'' linha) (\<lambda>linha.
     entao (anula_se_igual 6 [Nao_encontrado, ''NULL''] linha) (\<lambda>linha.
     entao (anula_se_contem 9 ''Ignorado'' linha) (\<lambda>linha.
     entao (anula_se_contem 10 ''Ignorado'' linha) (\<lambda>linha.
     entao (anula_se_contem 11 ''-'' linha) (\<lambda>linha.
     Inr (take 12 linha @ map stringParaBool (drop 12 linha)))))))))"

section \<open>Cases, municipalities and the report\<close>

text \<open>
  The attributes of a \<open>Caso\<close> hold whatever the normalised row holds, so they are values.
  The two dictionaries of symptoms and comorbidities are written as the dictionary displays
  of the source, key by key; they are \<open>None\<close> when the object is built without a row.
\<close>

record 'd Caso =
  data :: "'d pyval"
  classificacao :: "'d pyval"
  evolucao :: "'d pyval"
  criterioConfirmacao :: "'d pyval"
  statusNotificacao :: "'d pyval"
  municipio :: "'d pyval"
  bairro :: "'d pyval"
  faixaEtaria :: "'d pyval"
  sexo :: "'d pyval"
  racaCor :: "'d pyval"
  escolaridade :: "'d pyval"
  sintomas :: "(string \<times> 'd pyval) list option"
  comorbidades :: "(string \<times> 'd pyval) list option"
  ficouInternado :: "'d pyval"
  viagemBrasil :: "'d pyval"
  viagemInternacional :: "'d pyval"

text \<open>
  \<open>Caso.carrega_dados_linha\<close> of \<open>relatorio.py\<close>; reading \<open>linha[26]\<close> needs 27 cells. The
  normaliser it calls is the one \<open>relatorio.py\<close> imports from \<open>utils\<close>, for which the
  definition of \<open>parse_relatorio_powerbi.py\<close> stands. What is proved of \<open>relatorio.py\<close> below
  rests on this much of it: the date must be readable, 27 cells are needed, and the
  classification and the municipality (cells 1 and 5) are left as they are. Nothing is
  claimed of the flags of a \<open>Caso\<close> of \<open>relatorio.py\<close>.
\<close>

definition carrega_dados_linha :: "'d externos \<Rightarrow> 'd linha \<Rightarrow> error + 'd Caso" where
  "carrega_dados_linha ext linha0 =
     entao (trata_dados_linha ext linha0) (\<lambda>linha.
       if length linha < 27 then Inl IndexError
       else Inr \<lparr>
         data = linha ! 0,
         classificacao = linha ! 1,
         evolucao = linha ! 2,
         criterioConfirmacao = linha ! 3,
         statusNotificacao = linha ! 4,
         municipio = linha ! 5,
         bairro = linha ! 6,
         faixaEtaria = linha ! 7,
         sexo = linha ! 8,
         racaCor = linha ! 9,
         escolaridade = linha ! 10,
         sintomas = Some [
           (''febre'', linha ! 11),
           (''dificuldadeRespiratoria'', linha ! 12),
           (''tosse'', linha ! 13),
           (''coriza'', linha ! 14),
           (''dorGarganta'', linha ! 15),
           (''diarreia'', linha ! 16),
           (''cefaleia'', linha ! 17)],
         comorbidades = Some [
           (''comorbidadePulmao'', linha ! 18),
           (''comorbidadeCardio'', linha ! 19),
           (''comorbidadeRenal'', linha ! 20),
           (''comorbidadeDiabetes'', linha ! 21),
           (''comorbidadeTabagismo'', linha ! 22),
           (''comorbidadeObesidade'', linha ! 23)],
         ficouInternado = linha ! 24,
         viagemBrasil = linha ! 25,
         viagemInternacional = linha ! 26 \<rparr>)"

text \<open>
  \<open>Caso(dados)\<close>: an empty row is falsy, so the constructor takes the branch of the keyword
  arguments, all of them \<open>None\<close> by default, and does not raise.
\<close>

definition Caso_init :: "'d externos \<Rightarrow> 'd linha \<Rightarrow> error + 'd Caso" where
  "Caso_init ext dados =
     (if dados \<noteq> [] then carrega_dados_linha ext dados
      else Inr \<lparr>
         data = PNone, classificacao = PNone, evolucao = PNone, criterioConfirmacao = PNone,
         statusNotificacao = PNone, municipio = PNone, bairro = PNone, faixaEtaria = PNone,
         sexo = PNone, racaCor = PNone, escolaridade = PNone, sintomas = None,
         comorbidades = None, ficouInternado = PNone, viagemBrasil = PNone,
         viagemInternacional = PNone \<rparr>)"

text \<open>
  The two counters \<open>casosConfirmados\<close> and \<open>obitos\<close> appear in a \<open>Municipio\<close> and in the two
  dictionaries \<open>importadosOuIndefinidos\<close> and \<open>totalGeral\<close>.
\<close>

record contagem =
  casosConfirmados :: int
  obitos :: int

record 'd Municipio = contagem +
  nome :: string
  casos :: "'d Caso list"

definition Municipio_init :: "string \<Rightarrow> 'd Municipio" where
  "Municipio_init n = \<lparr> casosConfirmados = 0, obitos = 0, nome = n, casos = [] \<rparr>"

record 'd Relatorio =
  csv :: string
  linhasRelatorio :: "'d linha list option"
  casosMunicipios :: "string \<rightharpoonup> 'd Municipio"
  importadosOuIndefinidos :: contagem
  totalGeral :: contagem
  nMunicipiosInfectados :: int

definition inicializa_dicionario_municipios :: "'d externos \<Rightarrow> 'd Relatorio \<Rightarrow> 'd Relatorio" where
  "inicializa_dicionario_municipios ext self =
     self\<lparr> casosMunicipios :=
       foldl (\<lambda>d m. d(m \<mapsto> Municipio_init m)) (casosMunicipios self) (MUNICIPIOS ext) \<rparr>"

text \<open>\<open>Relatorio.__init__\<close>, with the rows that \<open>rows.import_from_csv\<close> read (or \<open>None\<close>).\<close>

definition Relatorio_init :: "'d externos \<Rightarrow> string \<Rightarrow> 'd linha list option \<Rightarrow> 'd Relatorio" where
  "Relatorio_init ext caminho linhas =
     inicializa_dicionario_municipios ext \<lparr>
       csv = caminho,
       linhasRelatorio = linhas,
       casosMunicipios = Map.empty,
       importadosOuIndefinidos = \<lparr> casosConfirmados = 0, obitos = 0 \<rparr>,
       totalGeral = \<lparr> casosConfirmados = 0, obitos = 0 \<rparr>,
       nMunicipiosInfectados = 0 \<rparr>"

section \<open>Municipality lookup: \<open>busca_casos_municipio\<close>\<close>

definition msg_nao_encontrado :: "string \<Rightarrow> string" where
  "msg_nao_encontrado m =
     ''O munic'' @ [CHR 0xC3, CHR 0xAD] @ ''pio '' @ [CHR 0x27] @ m @ [CHR 0x27] @ '' n''
     @ [CHR 0xC3, CHR 0xA3] @ ''o foi encontrado no relat'' @ [CHR 0xC3, CHR 0xB3]
     @ ''rio. Pode ter ocorrido um erro de digita'' @ [CHR 0xC3, CHR 0xA7, CHR 0xC3, CHR 0xA3]
     @ ''o ou o munic'' @ [CHR 0xC3, CHR 0xAD] @ ''pio n'' @ [CHR 0xC3, CHR 0xA3]
     @ ''o registrou casos de COVID-19.''"

definition busca_casos_municipio ::
  "'d externos \<Rightarrow> 'd Relatorio \<Rightarrow> string \<Rightarrow> error + 'd Municipio" where
  "busca_casos_municipio ext self m =
     (let stringMunicipioTratada = strip ext (upper ext (remove_caracteres_especiais ext m))
      in case casosMunicipios self stringMunicipioTratada of
           Some mun \<Rightarrow> Inr mun
         | None \<Rightarrow> Inl (RelatorioError (msg_nao_encontrado m)))"

section \<open>The aggregation pass: \<open>popula_relatorio\<close>\<close>

definition Obito_pelo_COVID19 :: string where
  "Obito_pelo_COVID19 = [CHR 0xC3, CHR 0x93] @ ''bito pelo COVID-19''"

text \<open>
  The statements of the loop of \<open>popula_relatorio\<close> that follow the construction of the
  \<open>Caso\<close>; they are the same in \<open>relatorio.py\<close> (lines 282 to 296) and in
  \<open>parse_relatorio_powerbi.py\<close> (lines 171 to 185). The report is changed in place, so an
  exception leaves the report as it was when it was raised: the error comes with that
  report. \<open>caso.municipio.upper()\<close> raises \<open>AttributeError\<close> when the municipality is not
  text, and \<open>self.casosMunicipios[caso.municipio]\<close> raises \<open>KeyError\<close> when the name as it
  is written in the row is not a key; both happen before the first assignment.
\<close>

definition contabiliza_caso ::
  "'d externos \<Rightarrow> 'd Relatorio \<Rightarrow> 'd Caso \<Rightarrow> (error \<times> 'd Relatorio) + 'd Relatorio" where
  "contabiliza_caso ext self caso =
     (case municipio caso of
        PStr nomeMun \<Rightarrow>
          entao
            (if remove_caracteres_especiais ext (upper ext nomeMun) \<in> set (MUNICIPIOS ext)
             then (case casosMunicipios self nomeMun of
                     None \<Rightarrow> Inl (KeyError nomeMun, self)
                   | Some mun \<Rightarrow>
                       let obito = (evolucao caso = PStr Obito_pelo_COVID19);
                           self1 = (if casosConfirmados mun = 0
                                    then self\<lparr> nMunicipiosInfectados :=
                                           nMunicipiosInfectados self + 1 \<rparr>
                                    else self);
                           self2 = (if obito
                                    then self1\<lparr> totalGeral := (totalGeral self1)
                                           \<lparr> obitos := obitos (totalGeral self1) + 1 \<rparr> \<rparr>
                                    else self1);
                           mun1 = (if obito then mun\<lparr> obitos := obitos mun + 1 \<rparr> else mun);
                           mun2 = mun1\<lparr> casos := casos mun1 @ [caso] \<rparr>;
                           mun3 = mun2\<lparr> casosConfirmados := casosConfirmados mun2 + 1 \<rparr>
                       in Inr (self2\<lparr> casosMunicipios :=
                                 (casosMunicipios self2)(nomeMun \<mapsto> mun3) \<rparr>))
             else
               (let self1 = self\<lparr> importadosOuIndefinidos := (importadosOuIndefinidos self)
                              \<lparr> casosConfirmados :=
                                  casosConfirmados (importadosOuIndefinidos self) + 1 \<rparr> \<rparr>
                in Inr (if evolucao caso = PStr Obito_pelo_COVID19
                        then self1\<lparr>
                          totalGeral := (totalGeral self1)
                            \<lparr> obitos := obitos (totalGeral self1) + 1 \<rparr>,
                          importadosOuIndefinidos := (importadosOuIndefinidos self1)
                            \<lparr> obitos := obitos (importadosOuIndefinidos self1) + 1 \<rparr> \<rparr>
                        else self1)))
            (\<lambda>self. Inr (self\<lparr> totalGeral := (totalGeral self)
                      \<lparr> casosConfirmados := casosConfirmados (totalGeral self) + 1 \<rparr> \<rparr>))
      | _ \<Rightarrow> Inl (AttributeError, self))"

text \<open>
  The body of the loop of \<open>Relatorio.popula_relatorio\<close> in \<open>relatorio.py\<close>, for one row:
  every row is counted, whatever its classification.
\<close>

definition popula_linha ::
  "'d externos \<Rightarrow> 'd Relatorio \<Rightarrow> 'd linha \<Rightarrow> (error \<times> 'd Relatorio) + 'd Relatorio" where
  "popula_linha ext self linha =
     (case Caso_init ext linha of
        Inl e \<Rightarrow> Inl (e, self)
      | Inr caso \<Rightarrow> contabiliza_caso ext self caso)"

text \<open>The \<open>for\<close> loop: rows in order, stopping at the first exception.\<close>

fun popula_linhas ::
  "'d externos \<Rightarrow> 'd Relatorio \<Rightarrow> 'd linha list \<Rightarrow> (error \<times> 'd Relatorio) + 'd Relatorio" where
  "popula_linhas ext self [] = Inr self"
| "popula_linhas ext self (linha # resto) =
     (case popula_linha ext self linha of
        Inl e \<Rightarrow> Inl e
      | Inr self' \<Rightarrow> popula_linhas ext self' resto)"

text \<open>The assignments of \<open>popula_relatorio\<close> before its loop.\<close>

definition zera_relatorio :: "'d externos \<Rightarrow> 'd Relatorio \<Rightarrow> 'd Relatorio" where
  "zera_relatorio ext self =
     (let self = self\<lparr> totalGeral := (totalGeral self)\<lparr> casosConfirmados := 0 \<rparr> \<rparr>;
          self = self\<lparr> totalGeral := (totalGeral self)\<lparr> obitos := 0 \<rparr> \<rparr>;
          self = inicializa_dicionario_municipios ext self;
          self = self\<lparr> nMunicipiosInfectados := 0 \<rparr>;
          self = self\<lparr> importadosOuIndefinidos :=
                   (importadosOuIndefinidos self)\<lparr> casosConfirmados := 0 \<rparr> \<rparr>;
          self = self\<lparr> importadosOuIndefinidos :=
                   (importadosOuIndefinidos self)\<lparr> obitos := 0 \<rparr> \<rparr>
      in self)"

text \<open>
  \<open>Relatorio.popula_relatorio\<close> of \<open>relatorio.py\<close>. Iterating over \<open>None\<close> (no rows were
  loaded) raises \<open>TypeError\<close>. The value returned is the copy of the report.
\<close>

definition popula_relatorio ::
  "'d externos \<Rightarrow> 'd Relatorio \<Rightarrow> (error \<times> 'd Relatorio) + 'd Relatorio" where
  "popula_relatorio ext self =
     (let self = zera_relatorio ext self
      in case linhasRelatorio self of
           None \<Rightarrow> Inl (TypeError, self)
         | Some linhas \<Rightarrow> popula_linhas ext self linhas)"

section \<open>Date filters of the reader: \<open>LeitorRelatorio\<close>\<close>

text \<open>
  The reader keeps the rows it loaded (\<open>leitor_linhasRelatorio\<close>, unset until a file is
  loaded) next to its report; the filters read the former and replace the rows of the
  latter.
\<close>

record 'd LeitorRelatorio =
  relatorio :: "'d Relatorio"
  leitor_csv :: string
  leitor_linhasRelatorio :: "'d linha list option"

definition msg_relatorio_vazio :: string where
  "msg_relatorio_vazio =
     Nao @ '' '' @ [CHR 0xC3, CHR 0xA9] @ '' poss'' @ [CHR 0xC3, CHR 0xAD]
     @ ''vel filtrar pois o relat'' @ [CHR 0xC3, CHR 0xB3] @ ''rio est'' @ [CHR 0xC3, CHR 0xA1]
     @ '' vazio (use o m'' @ [CHR 0xC3, CHR 0xA9]
     @ ''todo popula_relatorio() para preencher o relat'' @ [CHR 0xC3, CHR 0xB3] @ ''rio).''"

text \<open>
  The list comprehension \<open>[caso for caso in linhas if cond(arrow.get(caso[0], formats))]\<close>:
  rows in order; \<open>caso[0]\<close> raises \<open>IndexError\<close> on an empty row and \<open>arrow.get\<close> may raise.
\<close>

fun filtra_linhas :: "('d \<Rightarrow> bool) \<Rightarrow> 'd externos \<Rightarrow> 'd linha list \<Rightarrow> error + 'd linha list" where
  "filtra_linhas cond ext [] = Inr []"
| "filtra_linhas cond ext (caso # resto) =
     (if caso = [] then Inl IndexError
      else case arrow_get_formatos ext (caso ! 0) of
             None \<Rightarrow> Inl ParserError
           | Some d \<Rightarrow>
               entao (filtra_linhas cond ext resto) (\<lambda>mantidas.
                 Inr (if cond d then caso # mantidas else mantidas)))"

text \<open>
  What the two filters share: the test that the report has rows, the reading of the target
  date, the comprehension over \<open>self.linhasRelatorio[1:]\<close> and the new pass. The rows of the
  report are assigned only when the comprehension has finished.
\<close>

definition filtra_casos ::
  "('d \<Rightarrow> 'd \<Rightarrow> bool) \<Rightarrow> 'd externos \<Rightarrow> 'd LeitorRelatorio \<Rightarrow> 'd pyval \<Rightarrow>
     (error \<times> 'd LeitorRelatorio) + 'd LeitorRelatorio" where
  "filtra_casos compara ext self dia =
     (if linhasRelatorio (relatorio self) \<noteq> None \<and> linhasRelatorio (relatorio self) \<noteq> Some []
      then (case arrow_get_formatos ext dia of
              None \<Rightarrow> Inl (ParserError, self)
            | Some dataArrow \<Rightarrow>
               (case leitor_linhasRelatorio self of
                  None \<Rightarrow> Inl (AttributeError, self)
                | Some linhas \<Rightarrow>
                   (case filtra_linhas (compara dataArrow) ext (drop 1 linhas) of
                      Inl e \<Rightarrow> Inl (e, self)
                    | Inr mantidas \<Rightarrow>
                       (case popula_relatorio ext
                               ((relatorio self)\<lparr> linhasRelatorio := Some mantidas \<rparr>) of
                          Inl (e, r) \<Rightarrow> Inl (e, self\<lparr> relatorio := r \<rparr>)
                        | Inr r \<Rightarrow> Inr (self\<lparr> relatorio := r \<rparr>)))))
      else Inl (RelatorioError msg_relatorio_vazio, self))"

text \<open>\<open>filtra_casos_ate_dia\<close>: the condition is \<open>dataArrow >= arrow.get(caso[0], ...)\<close>.\<close>

definition filtra_casos_ate_dia ::
  "('d::linorder) externos \<Rightarrow> 'd LeitorRelatorio \<Rightarrow> 'd pyval \<Rightarrow>
     (error \<times> 'd LeitorRelatorio) + 'd LeitorRelatorio" where
  "filtra_casos_ate_dia = filtra_casos (\<lambda>dataArrow d. dataArrow \<ge> d)"

text \<open>\<open>filtra_casos_no_dia\<close>: the condition is \<open>dataArrow == arrow.get(caso[0], ...)\<close>.\<close>

definition filtra_casos_no_dia ::
  "'d externos \<Rightarrow> 'd LeitorRelatorio \<Rightarrow> 'd pyval \<Rightarrow>
     (error \<times> 'd LeitorRelatorio) + 'd LeitorRelatorio" where
  "filtra_casos_no_dia = filtra_casos (\<lambda>dataArrow d. dataArrow = d)"

section \<open>The older script \<open>parse_relatorio_powerbi.py\<close>\<close>

text \<open>
  The older \<open>Caso.carrega_dados_linha\<close> reads the same 27 cells; it names the symptoms and
  comorbidities in another order and calls the fourth attribute \<open>criterioClassificacao\<close>
  (kept here in the field \<open>criterioConfirmacao\<close>).
\<close>

definition carrega_dados_linha_powerbi :: "'d externos \<Rightarrow> 'd linha \<Rightarrow> error + 'd Caso" where
  "carrega_dados_linha_powerbi ext linha0 =
     entao (trata_dados_linha ext linha0) (\<lambda>linha.
       if length linha < 27 then Inl IndexError
       else Inr \<lparr>
         data = linha ! 0,
         classificacao = linha ! 1,
         evolucao = linha ! 2,
         criterioConfirmacao = linha ! 3,
         statusNotificacao = linha ! 4,
         municipio = linha ! 5,
         bairro = linha ! 6,
         faixaEtaria = linha ! 7,
         sexo = linha ! 8,
         racaCor = linha ! 9,
         escolaridade = linha ! 10,
         sintomas = Some [
           (''cefaleia'', linha ! 11),
           (''coriza'', linha ! 12),
           (''diarreia'', linha ! 13),
           (''dificuldadeRespiratoria'', linha ! 14),
           (''dorGarganta'', linha ! 15),
           (''febre'', linha ! 16),
           (''tosse'', linha ! 17)],
         comorbidades = Some [
           (''comorbidadeCardio'', linha ! 18),
           (''comorbidadeDiabetes'', linha ! 19),
           (''comorbidadePulmao'', linha ! 20),
           (''comorbidadeRenal'', linha ! 21),
           (''comorbidadeTabagismo'', linha ! 22),
           (''comorbidadeObesidade'', linha ! 23)],
         ficouInternado = linha ! 24,
         viagemBrasil = linha ! 25,
         viagemInternacional = linha ! 26 \<rparr>)"

definition Caso_init_powerbi :: "'d externos \<Rightarrow> 'd linha \<Rightarrow> error + 'd Caso" where
  "Caso_init_powerbi ext dados =
     (if dados \<noteq> [] then carrega_dados_linha_powerbi ext dados
      else Inr \<lparr>
         data = PNone, classificacao = PNone, evolucao = PNone, criterioConfirmacao = PNone,
         statusNotificacao = PNone, municipio = PNone, bairro = PNone, faixaEtaria = PNone,
         sexo = PNone, racaCor = PNone, escolaridade = PNone, sintomas = None,
         comorbidades = None, ficouInternado = PNone, viagemBrasil = PNone,
         viagemInternacional = PNone \<rparr>)"

text \<open>
  The body of the loop of the older \<open>popula_relatorio\<close>: the row is counted only under
  \<open>if caso.classificacao == "Confirmados"\<close>. (The \<open>print\<close> of each counted row is left out.)
\<close>

definition popula_linha_powerbi ::
  "'d externos \<Rightarrow> 'd Relatorio \<Rightarrow> 'd linha \<Rightarrow> (error \<times> 'd Relatorio) + 'd Relatorio" where
  "popula_linha_powerbi ext self linha =
     (case Caso_init_powerbi ext linha of
        Inl e \<Rightarrow> Inl (e, self)
      | Inr caso \<Rightarrow>
          if classificacao caso = PStr ''Confirmados''
          then contabiliza_caso ext self caso
          else Inr self)"

fun popula_linhas_powerbi ::
  "'d externos \<Rightarrow> 'd Relatorio \<Rightarrow> 'd linha list \<Rightarrow> (error \<times> 'd Relatorio) + 'd Relatorio" where
  "popula_linhas_powerbi ext self [] = Inr self"
| "popula_linhas_powerbi ext self (linha # resto) =
     (case popula_linha_powerbi ext self linha of
        Inl e \<Rightarrow> Inl e
      | Inr self' \<Rightarrow> popula_linhas_powerbi ext self' resto)"

text \<open>
  The older \<open>popula_relatorio\<close> loops over \<open>self.rows\<close> (the field \<open>linhasRelatorio\<close> here)
  without resetting anything first, and returns nothing.
\<close>

definition popula_relatorio_powerbi ::
  "'d externos \<Rightarrow> 'd Relatorio \<Rightarrow> (error \<times> 'd Relatorio) + 'd Relatorio" where
  "popula_relatorio_powerbi ext self =
     (case linhasRelatorio self of
        None \<Rightarrow> Inl (TypeError, self)
      | Some linhas \<Rightarrow> popula_linhas_powerbi ext self linhas)"

section \<open>Concrete collaborators and rows for evaluation\<close>

text \<open>
  A small registry, a cleaner of special characters that drops hyphens and full stops, and
  a date reader that knows three days (as the numbers year-month-day) are enough to run the
  definitions on concrete rows. The names of the examples are ASCII, so the Unicode tables
  are never consulted; the identity stands for them.
\<close>

definition data_exemplo :: "nat pyval \<Rightarrow> nat option" where
  "data_exemplo v =
     (if v = PStr ''10/03/2020'' then Some 20200310
      else if v = PStr ''11/03/2020'' then Some 20200311
      else if v = PStr ''12/03/2020'' then Some 20200312
      else None)"

definition ext_exemplo :: "nat externos" where
  "ext_exemplo = \<lparr>
     MUNICIPIOS = [''SERRA'', ''VITORIA''],
     remove_caracteres_especiais = filter (\<lambda>c. c \<noteq> CHR ''-'' \<and> c \<noteq> CHR ''.''),
     arrow_get = data_exemplo,
     arrow_get_formatos = data_exemplo,
     upper_unicode = (\<lambda>s. s),
     strip_unicode = (\<lambda>s. s) \<rparr>"

text \<open>A row of 27 cells with the given date, classification, outcome and municipality.\<close>

definition linha_exemplo :: "string \<Rightarrow> string \<Rightarrow> string \<Rightarrow> string \<Rightarrow> nat linha" where
  "linha_exemplo dia classe desfecho mun =
     [PStr dia, PStr classe, PStr desfecho, PStr ''Laboratorial'', PStr ''Encerrado'',
      PStr mun, PStr ''CENTRO'', PStr ''30 a 39 anos'', PStr ''F'', PStr ''Parda'',
      PStr ''Ignorado'', PStr ''Sim'', PStr ''Sim'', PStr Nao, PStr ''-'', PStr [],
      PInt 1, PInt 2, PStr ''Sim'', PStr Nao, PStr Nao, PStr Nao, PStr Nao, PStr Nao,
      PStr Nao, PStr ''talvez'', PNone]"

definition cabecalho :: "nat linha" where
  "cabecalho = map PStr [''DataNotificacao'', ''Classificacao'', ''Evolucao'']"

text \<open>A report and a reader as they are after loading the given rows.\<close>

definition relatorio_exemplo :: "nat linha list \<Rightarrow> nat Relatorio" where
  "relatorio_exemplo linhas = Relatorio_init ext_exemplo ''MICRODADOS.csv'' (Some linhas)"

definition leitor_exemplo :: "nat linha list \<Rightarrow> nat LeitorRelatorio" where
  "leitor_exemplo linhas = \<lparr>
     relatorio = relatorio_exemplo linhas,
     leitor_csv = ''MICRODADOS.csv'',
     leitor_linhasRelatorio = Some linhas \<rparr>"

section \<open>Vocabulary of the properties\<close>

text \<open>
  The report a call leaves behind: the one it returns, or the one it had changed in place
  when the exception was raised.
\<close>

abbreviation estado_final :: "('e \<times> 's) + 's \<Rightarrow> 's" where
  "estado_final res \<equiv> (case res of Inl (e, s) \<Rightarrow> s | Inr s \<Rightarrow> s)"

text \<open>The sum of a counter over the values of the dictionary of municipalities.\<close>

abbreviation soma_municipios :: "('d Municipio \<Rightarrow> int) \<Rightarrow> (string \<rightharpoonup> 'd Municipio) \<Rightarrow> int" where
  "soma_municipios f d \<equiv> (\<Sum>m\<in>dom d. f (the (d m)))"

text \<open>
  The conservation law of the counters: the general total is the total of the imported or
  undefined cases plus the sum over the municipalities, for confirmed cases and for deaths.
\<close>

definition conserva :: "'d Relatorio \<Rightarrow> bool" where
  "conserva r \<longleftrightarrow>
     finite (dom (casosMunicipios r)) \<and>
     casosConfirmados (totalGeral r) =
       casosConfirmados (importadosOuIndefinidos r)
       + soma_municipios casosConfirmados (casosMunicipios r) \<and>
     obitos (totalGeral r) =
       obitos (importadosOuIndefinidos r) + soma_municipios obitos (casosMunicipios r)"

section \<open>Properties of the normalisation\<close>

lemma entao_Inl [simp]: "entao (Inl e) f = Inl e"
  by (simp add: entao_def)

lemma entao_Inr [simp]: "entao (Inr x) f = f x"
  by (simp add: entao_def)

lemma entao_eq_Inr: "entao r f = Inr y \<longleftrightarrow> (\<exists>x. r = Inr x \<and> f x = Inr y)"
  by (cases r) simp_all

lemma anula_se_igual_Inr:
  "anula_se_igual i ss l = Inr l' \<longleftrightarrow>
     i < length l \<and> l' = l[i := (if l ! i \<in> PStr ` set ss then PNone else l ! i)]"
  by (auto simp: anula_se_igual_def)

lemma list_update_mesmo: "l ! i = v \<Longrightarrow> l[i := v] = l"
  by (metis list_update_id)

lemma anula_se_contem_Inr:
  "anula_se_contem i s l = Inr l' \<longleftrightarrow>
     i < length l \<and> (\<exists>t. l ! i = PStr t \<and> l' = l[i := (if contem s t then PNone else PStr t)])"
  by (cases "l ! i") (auto simp: anula_se_contem_def list_update_mesmo)

lemma converte_data_Inr:
  "converte_data ext l = Inr l' \<longleftrightarrow>
     0 < length l \<and> (\<exists>d. arrow_get ext (l ! 0) = Some d \<and> l' = l[0 := PDate d])"
  by (auto simp: converte_data_def split: option.splits)

text \<open>What a successful normalisation did, cell by cell.\<close>

lemma trata_dados_linha_Inr:
  assumes "trata_dados_linha ext l = Inr l'"
  shows "12 \<le> length l" and "length l' = length l"
    and "\<exists>d. arrow_get ext (l ! 0) = Some d \<and> l' ! 0 = PDate d"
    and "l' ! 2 = (if l ! 2 \<in> PStr ` set [''Ignorado'', ''-''] then PNone else l ! 2)"
    and "\<exists>t. l ! 3 = PStr t \<and> l' ! 3 = (if contem ''-'' t then PNone else PStr t)"
    and "l' ! 6 = (if l ! 6 \<in> PStr ` set [Nao_encontrado, ''NULL''] then PNone else l ! 6)"
    and "\<exists>t. l ! 9 = PStr t \<and> l' ! 9 = (if contem ''Ignorado'' t then PNone else PStr t)"
    and "\<exists>t. l ! 10 = PStr t \<and> l' ! 10 = (if contem ''Ignorado'' t then PNone else PStr t)"
    and "\<exists>t. l ! 11 = PStr t \<and> l' ! 11 = (if contem ''-'' t then PNone else PStr t)"
    and "\<And>i. i \<in> {1, 4, 5, 7, 8} \<Longrightarrow> l' ! i = l ! i"
    and "\<And>i. 12 \<le> i \<Longrightarrow> i < length l \<Longrightarrow> l' ! i = stringParaBool (l ! i)"
proof -
  from assms obtain l0 l2 l3 l6 l9 l10 l11 where
    s0: "converte_data ext l = Inr l0" and
    s2: "anula_se_igual 2 [''Ignorado'', ''-''] l0 = Inr l2" and
    s3: "anula_se_contem 3 ''-'' l2 = Inr l3" and
    s6: "anula_se_igual 6 [Nao_encontrado, ''NULL''] l3 = Inr l6" and
    s9: "anula_se_contem 9 ''Ignorado'' l6 = Inr l9" and
    s10: "anula_se_contem 10 ''Ignorado'' l9 = Inr l10" and
    s11: "anula_se_contem 11 ''-'' l10 = Inr l11" and
    fim: "l' = take 12 l11 @ map stringParaBool (drop 12 l11)"
    unfolding trata_dados_linha_def entao_eq_Inr by blast
  note c0 = s0 [unfolded converte_data_Inr]
  note c2 = s2 [unfolded anula_se_igual_Inr]
  note c3 = s3 [unfolded anula_se_contem_Inr]
  note c6 = s6 [unfolded anula_se_igual_Inr]
  note c9 = s9 [unfolded anula_se_contem_Inr]
  note c10 = s10 [unfolded anula_se_contem_Inr]
  note c11 = s11 [unfolded anula_se_contem_Inr]
  have len: "length l0 = length l" "length l2 = length l" "length l3 = length l"
    "length l6 = length l" "length l9 = length l" "length l10 = length l"
    "length l11 = length l"
    using c0 c2 c3 c6 c9 c10 c11 by auto
  show n12: "12 \<le> length l" using c11 len by simp
  show "length l' = length l" using fim len by simp
  have low: "\<And>i. i < 12 \<Longrightarrow> l' ! i = l11 ! i"
    using fim n12 len by (simp add: nth_append)
  show "\<exists>d. arrow_get ext (l ! 0) = Some d \<and> l' ! 0 = PDate d"
    using c0 c2 c3 c6 c9 c10 c11 low [of 0] n12 len by auto
  show "l' ! 2 = (if l ! 2 \<in> PStr ` set [''Ignorado'', ''-''] then PNone else l ! 2)"
    using c0 c2 c3 c6 c9 c10 c11 low [of 2] n12 len by auto
  show "\<exists>t. l ! 3 = PStr t \<and> l' ! 3 = (if contem ''-'' t then PNone else PStr t)"
    using c0 c2 c3 c6 c9 c10 c11 low [of 3] n12 len by auto
  show "l' ! 6 = (if l ! 6 \<in> PStr ` set [Nao_encontrado, ''NULL''] then PNone else l ! 6)"
    using c0 c2 c3 c6 c9 c10 c11 low [of 6] n12 len by auto
  show "\<exists>t. l ! 9 = PStr t \<and> l' ! 9 = (if contem ''Ignorado'' t then PNone else PStr t)"
    using c0 c2 c3 c6 c9 c10 c11 low [of 9] n12 len by auto
  show "\<exists>t. l ! 10 = PStr t \<and> l' ! 10 = (if contem ''Ignorado'' t then PNone else PStr t)"
    using c0 c2 c3 c6 c9 c10 c11 low [of 10] n12 len by auto
  show "\<exists>t. l ! 11 = PStr t \<and> l' ! 11 = (if contem ''-'' t then PNone else PStr t)"
    using c0 c2 c3 c6 c9 c10 c11 low [of 11] n12 len by auto
  show "\<And>i. i \<in> {1, 4, 5, 7, 8} \<Longrightarrow> l' ! i = l ! i"
    using c0 c2 c3 c6 c9 c10 c11 low n12 len by auto
  show "\<And>i. 12 \<le> i \<Longrightarrow> i < length l \<Longrightarrow> l' ! i = stringParaBool (l ! i)"
  proof -
    fix i assume i: "12 \<le> i" "i < length l"
    have "l' ! i = stringParaBool (l11 ! i)"
      using fim i len n12 by (simp add: nth_append)
    also have "l11 ! i = l ! i"
      using c0 c2 c3 c6 c9 c10 c11 i len by auto
    finally show "l' ! i = stringParaBool (l ! i)" .
  qed
qed


subsection \<open>Placeholders and flags\<close>

lemma stringParaBool_vocabulario:
  "stringParaBool (PStr ''Sim'') = PBool True"
  "stringParaBool (PStr Nao) = PBool False"
  "stringParaBool (PStr []) = PNone"
  "stringParaBool (PStr ''-'') = PNone"
  "stringParaBool (PInt 1) = PBool True"
  "stringParaBool (PInt 2) = PNone"
  "v \<notin> {PStr ''Sim'', PStr Nao, PStr ''-'', PStr [], PInt 1, PInt 2, PBool True}
     \<Longrightarrow> stringParaBool v = PNone"
  by (simp_all add: stringParaBool_def Nao_def)

lemma stringParaBool_booleano:
  "stringParaBool v = PNone \<or> stringParaBool v = PBool True \<or> stringParaBool v = PBool False"
  by (simp add: stringParaBool_def)

text \<open>
  In a \<open>Caso\<close> of the older script every flag but the first symptom (\<open>cefaleia\<close>, read from
  cell 11) is a boolean or \<open>None\<close>.
\<close>

lemma carrega_dados_linha_powerbi_booleanos:
  assumes "carrega_dados_linha_powerbi ext linha = Inr caso"
  shows "\<forall>v \<in> snd ` set (tl (the (sintomas caso))) \<union> snd ` set (the (comorbidades caso))
                \<union> {ficouInternado caso, viagemBrasil caso, viagemInternacional caso}.
           v = PNone \<or> v = PBool True \<or> v = PBool False"
proof -
  from assms obtain l where t: "trata_dados_linha ext linha = Inr l" and n: "27 \<le> length l"
    and c: "caso = \<lparr>
         data = l ! 0, classificacao = l ! 1, evolucao = l ! 2, criterioConfirmacao = l ! 3,
         statusNotificacao = l ! 4, municipio = l ! 5, bairro = l ! 6, faixaEtaria = l ! 7,
         sexo = l ! 8, racaCor = l ! 9, escolaridade = l ! 10,
         sintomas = Some [
           (''cefaleia'', l ! 11), (''coriza'', l ! 12), (''diarreia'', l ! 13),
           (''dificuldadeRespiratoria'', l ! 14), (''dorGarganta'', l ! 15), (''febre'', l ! 16),
           (''tosse'', l ! 17)],
         comorbidades = Some [
           (''comorbidadeCardio'', l ! 18), (''comorbidadeDiabetes'', l ! 19),
           (''comorbidadePulmao'', l ! 20), (''comorbidadeRenal'', l ! 21),
           (''comorbidadeTabagismo'', l ! 22), (''comorbidadeObesidade'', l ! 23)],
         ficouInternado = l ! 24, viagemBrasil = l ! 25, viagemInternacional = l ! 26 \<rparr>"
    unfolding carrega_dados_linha_powerbi_def entao_eq_Inr by (auto split: if_splits)
  have len: "length linha = length l" using trata_dados_linha_Inr(2) [OF t] by simp
  have b: "l ! i = PNone \<or> l ! i = PBool True \<or> l ! i = PBool False"
    if "12 \<le> i" "i < 27" for i
    using trata_dados_linha_Inr(11) [OF t, of i] that n len stringParaBool_booleano [of "linha ! i"]
    by simp
  show ?thesis unfolding c using b by simp
qed

text \<open>The older script counts a row only when its classification is \<open>"Confirmados"\<close>.\<close>

lemma popula_linha_powerbi_nao_confirmado:
  assumes "Caso_init_powerbi ext linha = Inr caso"
      and "classificacao caso \<noteq> PStr ''Confirmados''"
  shows "popula_linha_powerbi ext self linha = Inr self"
  using assms by (simp add: popula_linha_powerbi_def)

lemma contem_proprio: "contem s s"
  by (cases s) simp_all

text \<open>
  Claim C4, amended. When \<open>trata_dados_linha\<close> accepts a row: the outcome (cell 2) and the
  neighbourhood (cell 6) become \<open>None\<close> exactly when the cell equals one of the
  placeholders of its column, and are unchanged otherwise; the confirmation criterion
  (cell 3), race/colour (cell 9), education (cell 10) and the first flag (cell 11) become
  \<open>None\<close> when the cell equals the placeholder of the column (\<open>"-"\<close>, \<open>"Ignorado"\<close>,
  \<open>"Ignorado"\<close>, \<open>"-"\<close>), and a text that does not contain the placeholder is unchanged.
  (What becomes of a text of these four cells that contains the placeholder without being
  equal to it is left aside.)
\<close>

theorem trata_dados_linha_sentinelas:
  assumes "trata_dados_linha ext linha = Inr linha'"
  shows "linha' ! 2 = (if linha ! 2 = PStr ''Ignorado'' \<or> linha ! 2 = PStr ''-''
                       then PNone else linha ! 2) \<and>
         linha' ! 6 = (if linha ! 6 = PStr Nao_encontrado \<or> linha ! 6 = PStr ''NULL''
                       then PNone else linha ! 6) \<and>
         (linha ! 3 = PStr ''-'' \<longrightarrow> linha' ! 3 = PNone) \<and>
         (\<forall>t. linha ! 3 = PStr t \<and> \<not> contem ''-'' t \<longrightarrow> linha' ! 3 = PStr t) \<and>
         (linha ! 9 = PStr ''Ignorado'' \<longrightarrow> linha' ! 9 = PNone) \<and>
         (\<forall>t. linha ! 9 = PStr t \<and> \<not> contem ''Ignorado'' t \<longrightarrow> linha' ! 9 = PStr t) \<and>
         (linha ! 10 = PStr ''Ignorado'' \<longrightarrow> linha' ! 10 = PNone) \<and>
         (\<forall>t. linha ! 10 = PStr t \<and> \<not> contem ''Ignorado'' t \<longrightarrow> linha' ! 10 = PStr t) \<and>
         (linha ! 11 = PStr ''-'' \<longrightarrow> linha' ! 11 = PNone) \<and>
         (\<forall>t. linha ! 11 = PStr t \<and> \<not> contem ''-'' t \<longrightarrow> linha' ! 11 = PStr t)"
proof -
  note t = trata_dados_linha_Inr [OF assms]
  have c: "contem ''-'' ''-''" "contem ''Ignorado'' ''Ignorado''"
    by (rule contem_proprio)+
  from t(4,6) have "linha' ! 2 = (if linha ! 2 = PStr ''Ignorado'' \<or> linha ! 2 = PStr ''-''
                       then PNone else linha ! 2)"
    and "linha' ! 6 = (if linha ! 6 = PStr Nao_encontrado \<or> linha ! 6 = PStr ''NULL''
                       then PNone else linha ! 6)"
    by simp_all
  moreover from t(5) c(1) have "linha ! 3 = PStr ''-'' \<longrightarrow> linha' ! 3 = PNone"
    and "\<forall>t. linha ! 3 = PStr t \<and> \<not> contem ''-'' t \<longrightarrow> linha' ! 3 = PStr t"
    by auto
  moreover from t(7) c(2) have "linha ! 9 = PStr ''Ignorado'' \<longrightarrow> linha' ! 9 = PNone"
    and "\<forall>t. linha ! 9 = PStr t \<and> \<not> contem ''Ignorado'' t \<longrightarrow> linha' ! 9 = PStr t"
    by auto
  moreover from t(8) c(2) have "linha ! 10 = PStr ''Ignorado'' \<longrightarrow> linha' ! 10 = PNone"
    and "\<forall>t. linha ! 10 = PStr t \<and> \<not> contem ''Ignorado'' t \<longrightarrow> linha' ! 10 = PStr t"
    by auto
  moreover from t(9) c(1) have "linha ! 11 = PStr ''-'' \<longrightarrow> linha' ! 11 = PNone"
    and "\<forall>t. linha ! 11 = PStr t \<and> \<not> contem ''-'' t \<longrightarrow> linha' ! 11 = PStr t"
    by auto
  ultimately show ?thesis by blast
qed

section \<open>Properties of the aggregation pass\<close>

subsection \<open>Rows that make the pass fail\<close>

lemma carrega_dados_linha_Inr:
  assumes "carrega_dados_linha ext l = Inr c"
  shows "27 \<le> length l" and "arrow_get ext (l ! 0) \<noteq> None"
proof -
  from assms obtain l' where t: "trata_dados_linha ext l = Inr l'" and n: "\<not> length l' < 27"
    unfolding carrega_dados_linha_def entao_eq_Inr by (auto split: if_splits)
  show "27 \<le> length l" using trata_dados_linha_Inr(2) [OF t] n by simp
  show "arrow_get ext (l ! 0) \<noteq> None" using trata_dados_linha_Inr(3) [OF t] by auto
qed

lemma contabiliza_caso_Inl: "contabiliza_caso ext s c = Inl (e, s') \<Longrightarrow> s' = s"
  by (auto simp: contabiliza_caso_def Let_def entao_def split: pyval.splits option.splits if_splits)

lemma popula_linha_Inl: "popula_linha ext s l = Inl (e, s') \<Longrightarrow> s' = s"
  by (auto simp: popula_linha_def split: sum.splits dest: contabiliza_caso_Inl)

lemma popula_linha_malformada:
  assumes "arrow_get ext (l ! 0) = None \<or> length l < 27"
  shows "\<exists>e. popula_linha ext s l = Inl (e, s)"
proof (cases "l = []")
  case True
  then show ?thesis
    by (simp add: popula_linha_def Caso_init_def contabiliza_caso_def)
next
  case False
  show ?thesis
  proof (cases "carrega_dados_linha ext l")
    case (Inl e)
    with False show ?thesis by (simp add: popula_linha_def Caso_init_def)
  next
    case (Inr c)
    from carrega_dados_linha_Inr [OF Inr] assms show ?thesis by simp
  qed
qed

lemma popula_linhas_append:
  "popula_linhas ext s (xs @ ys) =
     (case popula_linhas ext s xs of Inl e \<Rightarrow> Inl e | Inr s' \<Rightarrow> popula_linhas ext s' ys)"
  by (induction xs arbitrary: s) (auto split: sum.splits)

lemma popula_linhas_falha:
  assumes "l \<in> set ls" and "arrow_get ext (l ! 0) = None \<or> length l < 27"
  shows "\<exists>e r. popula_linhas ext s ls = Inl (e, r)"
  using assms(1)
proof (induction ls arbitrary: s)
  case Nil
  then show ?case by simp
next
  case (Cons a ls)
  show ?case
  proof (cases "popula_linha ext s a")
    case (Inl er)
    then show ?thesis by (cases er) simp
  next
    case (Inr s')
    with popula_linha_malformada [OF assms(2), of s] have "a \<noteq> l" by auto
    with Cons.prems have "l \<in> set ls" by simp
    from Cons.IH [OF this, of s'] Inr show ?thesis by simp
  qed
qed

lemma linhasRelatorio_zera [simp]:
  "linhasRelatorio (zera_relatorio ext s) = linhasRelatorio s"
  by (simp add: zera_relatorio_def inicializa_dicionario_municipios_def Let_def)

text \<open>
  Claim C8. A row whose first cell \<open>arrow.get\<close> cannot read with the format
  \<open>DD/MM/YYYY\<close>, or a row of fewer than 27 cells, makes the pass fail: \<open>popula_relatorio\<close>
  raises and returns no report. No row is skipped and nothing after the failing row is
  processed: when the rows before it were counted, the report is left exactly as those rows
  made it.
\<close>

theorem popula_relatorio_falha_em_linha_malformada:
  assumes "linhasRelatorio self = Some (antes @ linha # depois)"
      and "arrow_get ext (linha ! 0) = None \<or> length linha < 27"
    shows "(\<exists>e r. popula_relatorio ext self = Inl (e, r)) \<and>
           (\<forall>r. popula_linhas ext (zera_relatorio ext self) antes = Inr r \<longrightarrow>
                (\<exists>e. popula_relatorio ext self = Inl (e, r)))"
proof
  have "linha \<in> set (antes @ linha # depois)" by simp
  from popula_linhas_falha [OF this assms(2)] assms(1)
  show "\<exists>e r. popula_relatorio ext self = Inl (e, r)"
    by (simp add: popula_relatorio_def Let_def)
next
  show "\<forall>r. popula_linhas ext (zera_relatorio ext self) antes = Inr r \<longrightarrow>
                (\<exists>e. popula_relatorio ext self = Inl (e, r))"
  proof (intro allI impI)
    fix r assume a: "popula_linhas ext (zera_relatorio ext self) antes = Inr r"
    from popula_linha_malformada [OF assms(2), of r] obtain e where
      "popula_linha ext r linha = Inl (e, r)" by blast
    with a assms(1) show "\<exists>e. popula_relatorio ext self = Inl (e, r)"
      by (simp add: popula_relatorio_def Let_def popula_linhas_append)
  qed
qed


subsection \<open>The dictionary of municipalities\<close>

lemma inicializa_foldl:
  "foldl (\<lambda>d m. d(m \<mapsto> Municipio_init m)) d0 ms k =
     (if k \<in> set ms then Some (Municipio_init k) else d0 k)"
  by (induction ms arbitrary: d0) auto

lemma casosMunicipios_zera:
  "casosMunicipios (zera_relatorio ext s) k =
     (if k \<in> set (MUNICIPIOS ext) then Some (Municipio_init k) else casosMunicipios s k)"
  by (simp add: zera_relatorio_def inicializa_dicionario_municipios_def Let_def inicializa_foldl)

lemma dom_zera:
  "dom (casosMunicipios (zera_relatorio ext s)) = dom (casosMunicipios s) \<union> set (MUNICIPIOS ext)"
  by (auto simp: casosMunicipios_zera dom_def)

lemma contadores_zera [simp]:
  "totalGeral (zera_relatorio ext s) = (totalGeral s)\<lparr> casosConfirmados := 0, obitos := 0 \<rparr>"
  "importadosOuIndefinidos (zera_relatorio ext s) =
     (importadosOuIndefinidos s)\<lparr> casosConfirmados := 0, obitos := 0 \<rparr>"
  "nMunicipiosInfectados (zera_relatorio ext s) = 0"
  "csv (zera_relatorio ext s) = csv s"
  by (simp_all add: zera_relatorio_def inicializa_dicionario_municipios_def Let_def)

text \<open>What one counted case changes, when the body of the loop does not raise.\<close>

lemma contabiliza_caso_Inr:
  assumes "contabiliza_caso ext s c = Inr s'"
  obtains (classificado) m mun mun' where
      "municipio c = PStr m"
      "remove_caracteres_especiais ext (upper ext m) \<in> set (MUNICIPIOS ext)"
      "casosMunicipios s m = Some mun"
      "casosMunicipios s' = (casosMunicipios s)(m \<mapsto> mun')"
      "casosConfirmados mun' = casosConfirmados mun + 1"
      "obitos mun' = obitos mun + (if evolucao c = PStr Obito_pelo_COVID19 then 1 else 0)"
      "casos mun' = casos mun @ [c]" "nome mun' = nome mun"
      "nMunicipiosInfectados s' =
         nMunicipiosInfectados s + (if casosConfirmados mun = 0 then 1 else 0)"
      "importadosOuIndefinidos s' = importadosOuIndefinidos s"
      "totalGeral s' = (totalGeral s)\<lparr>
          casosConfirmados := casosConfirmados (totalGeral s) + 1,
          obitos := obitos (totalGeral s)
                     + (if evolucao c = PStr Obito_pelo_COVID19 then 1 else 0) \<rparr>"
      "csv s' = csv s" "linhasRelatorio s' = linhasRelatorio s"
  | (indefinido) m where
      "municipio c = PStr m"
      "remove_caracteres_especiais ext (upper ext m) \<notin> set (MUNICIPIOS ext)"
      "casosMunicipios s' = casosMunicipios s"
      "nMunicipiosInfectados s' = nMunicipiosInfectados s"
      "importadosOuIndefinidos s' = (importadosOuIndefinidos s)\<lparr>
          casosConfirmados := casosConfirmados (importadosOuIndefinidos s) + 1,
          obitos := obitos (importadosOuIndefinidos s)
                     + (if evolucao c = PStr Obito_pelo_COVID19 then 1 else 0) \<rparr>"
      "totalGeral s' = (totalGeral s)\<lparr>
          casosConfirmados := casosConfirmados (totalGeral s) + 1,
          obitos := obitos (totalGeral s)
                     + (if evolucao c = PStr Obito_pelo_COVID19 then 1 else 0) \<rparr>"
      "csv s' = csv s" "linhasRelatorio s' = linhasRelatorio s"
proof -
  from assms obtain m where m: "municipio c = PStr m"
    by (cases "municipio c") (simp_all add: contabiliza_caso_def)
  show thesis
  proof (cases "remove_caracteres_especiais ext (upper ext m) \<in> set (MUNICIPIOS ext)")
    case True
    with assms m obtain mun where mun: "casosMunicipios s m = Some mun"
      by (cases "casosMunicipios s m") (simp_all add: contabiliza_caso_def)
    from assms m True mun have
      "s' = (let obito = (evolucao c = PStr Obito_pelo_COVID19);
                 self1 = (if casosConfirmados mun = 0
                          then s\<lparr> nMunicipiosInfectados := nMunicipiosInfectados s + 1 \<rparr>
                          else s);
                 self2 = (if obito
                          then self1\<lparr> totalGeral := (totalGeral self1)
                                 \<lparr> obitos := obitos (totalGeral self1) + 1 \<rparr> \<rparr>
                          else self1);
                 mun1 = (if obito then mun\<lparr> obitos := obitos mun + 1 \<rparr> else mun);
                 mun2 = mun1\<lparr> casos := casos mun1 @ [c] \<rparr>;
                 mun3 = mun2\<lparr> casosConfirmados := casosConfirmados mun2 + 1 \<rparr>;
                 self3 = self2\<lparr> casosMunicipios := (casosMunicipios self2)(m \<mapsto> mun3) \<rparr>
             in self3\<lparr> totalGeral := (totalGeral self3)
                      \<lparr> casosConfirmados := casosConfirmados (totalGeral self3) + 1 \<rparr> \<rparr>)"
      by (simp add: contabiliza_caso_def Let_def)
    then have
      "casosMunicipios s' = (casosMunicipios s)(m \<mapsto> the (casosMunicipios s' m))"
      "casosConfirmados (the (casosMunicipios s' m)) = casosConfirmados mun + 1"
      "obitos (the (casosMunicipios s' m)) =
         obitos mun + (if evolucao c = PStr Obito_pelo_COVID19 then 1 else 0)"
      "casos (the (casosMunicipios s' m)) = casos mun @ [c]"
      "nome (the (casosMunicipios s' m)) = nome mun"
      "nMunicipiosInfectados s' =
         nMunicipiosInfectados s + (if casosConfirmados mun = 0 then 1 else 0)"
      "importadosOuIndefinidos s' = importadosOuIndefinidos s"
      "totalGeral s' = (totalGeral s)\<lparr>
          casosConfirmados := casosConfirmados (totalGeral s) + 1,
          obitos := obitos (totalGeral s)
                     + (if evolucao c = PStr Obito_pelo_COVID19 then 1 else 0) \<rparr>"
      "csv s' = csv s" "linhasRelatorio s' = linhasRelatorio s"
      by (simp_all add: Let_def)
    with m True mun show thesis by (rule classificado)
  next
    case False
    from assms m False have
      "s' = (let self1 = s\<lparr> importadosOuIndefinidos := (importadosOuIndefinidos s)
                              \<lparr> casosConfirmados :=
                                  casosConfirmados (importadosOuIndefinidos s) + 1 \<rparr> \<rparr>;
                 self2 = (if evolucao c = PStr Obito_pelo_COVID19
                        then self1\<lparr>
                          totalGeral := (totalGeral self1)
                            \<lparr> obitos := obitos (totalGeral self1) + 1 \<rparr>,
                          importadosOuIndefinidos := (importadosOuIndefinidos self1)
                            \<lparr> obitos := obitos (importadosOuIndefinidos self1) + 1 \<rparr> \<rparr>
                        else self1)
             in self2\<lparr> totalGeral := (totalGeral self2)
                      \<lparr> casosConfirmados := casosConfirmados (totalGeral self2) + 1 \<rparr> \<rparr>)"
      by (simp add: contabiliza_caso_def Let_def)
    then have
      "casosMunicipios s' = casosMunicipios s"
      "nMunicipiosInfectados s' = nMunicipiosInfectados s"
      "importadosOuIndefinidos s' = (importadosOuIndefinidos s)\<lparr>
          casosConfirmados := casosConfirmados (importadosOuIndefinidos s) + 1,
          obitos := obitos (importadosOuIndefinidos s)
                     + (if evolucao c = PStr Obito_pelo_COVID19 then 1 else 0) \<rparr>"
      "totalGeral s' = (totalGeral s)\<lparr>
          casosConfirmados := casosConfirmados (totalGeral s) + 1,
          obitos := obitos (totalGeral s)
                     + (if evolucao c = PStr Obito_pelo_COVID19 then 1 else 0) \<rparr>"
      "csv s' = csv s" "linhasRelatorio s' = linhasRelatorio s"
      by (simp_all add: Let_def)
    with m False show thesis by (rule indefinido)
  qed
qed


text \<open>A property of the report that every counted case keeps, holds when the loop ends,
  whether it ends with the last row or with an exception.\<close>

lemma popula_linha_invariante:
  assumes "P s" and "\<And>s c s'. P s \<Longrightarrow> contabiliza_caso ext s c = Inr s' \<Longrightarrow> P s'"
  shows "P (estado_final (popula_linha ext s l))"
proof (cases "popula_linha ext s l")
  case (Inl er)
  then show ?thesis using popula_linha_Inl [of ext s l "fst er" "snd er"] assms(1)
    by (cases er) simp
next
  case (Inr s')
  then obtain c where "contabiliza_caso ext s c = Inr s'"
    by (auto simp: popula_linha_def split: sum.splits)
  from assms(2) [OF assms(1) this] Inr show ?thesis by simp
qed

lemma popula_linhas_invariante:
  assumes "P s" and "\<And>s c s'. P s \<Longrightarrow> contabiliza_caso ext s c = Inr s' \<Longrightarrow> P s'"
  shows "P (estado_final (popula_linhas ext s ls))"
  using assms(1)
proof (induction ls arbitrary: s)
  case Nil
  then show ?case by simp
next
  case (Cons l ls)
  show ?case
  proof (cases "popula_linha ext s l")
    case (Inl er)
    with popula_linha_invariante [of P s ext l, OF Cons.prems assms(2)]
    show ?thesis by simp
  next
    case (Inr s')
    with popula_linha_invariante [of P s ext l, OF Cons.prems assms(2)]
    have "P s'" by simp
    from Cons.IH [OF this] Inr show ?thesis by simp
  qed
qed

lemma soma_municipios_upd:
  assumes "finite (dom d)" and "d k = Some v"
  shows "soma_municipios f (d(k \<mapsto> v')) = soma_municipios f d - f v + f v'"
proof -
  have k: "k \<in> dom d" using assms(2) by auto
  then have dm: "dom (d(k \<mapsto> v')) = dom d" by auto
  have e1: "(\<Sum>m\<in>dom d. f (the ((d(k \<mapsto> v')) m))) =
          f (the ((d(k \<mapsto> v')) k)) + (\<Sum>m\<in>dom d - {k}. f (the ((d(k \<mapsto> v')) m)))"
    by (rule sum.remove [OF assms(1) k])
  have e2: "(\<Sum>m\<in>dom d. f (the (d m))) = f (the (d k)) + (\<Sum>m\<in>dom d - {k}. f (the (d m)))"
    by (rule sum.remove [OF assms(1) k])
  have e3: "(\<Sum>m\<in>dom d - {k}. f (the ((d(k \<mapsto> v')) m))) = (\<Sum>m\<in>dom d - {k}. f (the (d m)))"
    by (rule sum.cong) auto
  have "soma_municipios f (d(k \<mapsto> v')) = (\<Sum>m\<in>dom d. f (the ((d(k \<mapsto> v')) m)))"
    by (simp only: dm)
  also have "\<dots> = f v' + (\<Sum>m\<in>dom d - {k}. f (the (d m)))"
    by (simp only: e1 e3) simp
  finally show ?thesis using e2 assms(2) by simp
qed

lemma contabiliza_caso_conserva:
  assumes "conserva s" and "contabiliza_caso ext s c = Inr s'"
  shows "conserva s'"
  using assms(2)
proof (cases rule: contabiliza_caso_Inr)
  case (classificado m mun mun')
  have fin: "finite (dom (casosMunicipios s))" using assms(1) by (simp add: conserva_def)
  from classificado(3) have "dom ((casosMunicipios s)(m \<mapsto> mun')) = dom (casosMunicipios s)"
    by auto
  with fin have "finite (dom (casosMunicipios s'))" by (simp add: classificado(4))
  moreover have upd: "\<And>f. soma_municipios f (casosMunicipios s') =
      soma_municipios f (casosMunicipios s) - f mun + f mun'"
    by (simp only: classificado(4) soma_municipios_upd [OF fin classificado(3)])
  have "soma_municipios casosConfirmados (casosMunicipios s') =
      soma_municipios casosConfirmados (casosMunicipios s) + 1"
    by (simp add: upd classificado(5))
  moreover have "soma_municipios obitos (casosMunicipios s') =
      soma_municipios obitos (casosMunicipios s)
      + (if evolucao c = PStr Obito_pelo_COVID19 then 1 else 0)"
    by (simp add: upd classificado(6))
  ultimately show ?thesis
    using assms(1) classificado(10,11) by (simp add: conserva_def)
next
  case (indefinido m)
  then show ?thesis using assms(1) by (simp add: conserva_def)
qed

lemma conserva_zera:
  assumes "dom (casosMunicipios s) \<subseteq> set (MUNICIPIOS ext)"
  shows "conserva (zera_relatorio ext s)"
proof -
  have d: "dom (casosMunicipios (zera_relatorio ext s)) = set (MUNICIPIOS ext)"
    using assms by (auto simp: dom_zera)
  have "\<And>f. (\<forall>n. f (Municipio_init n) = 0) \<Longrightarrow>
         soma_municipios f (casosMunicipios (zera_relatorio ext s)) = 0"
    unfolding d by (simp add: casosMunicipios_zera)
  from this [of casosConfirmados] this [of obitos] d show ?thesis
    by (simp add: conserva_def Municipio_init_def)
qed

text \<open>
  Claim C2. After a pass of \<open>popula_relatorio\<close> over a report whose dictionary has the
  keys of the registry only (as the constructor builds it), the general total of confirmed
  cases is the total of imported or undefined cases plus the sum over all municipalities
  of the dictionary, and the same holds for the deaths. It holds for the report the pass
  returns and also for the report an aborted pass leaves behind.
\<close>

theorem popula_relatorio_conserva_totais:
  fixes ext :: "'d externos" and self :: "'d Relatorio" and r :: "'d Relatorio"
  defines "r \<equiv> estado_final (popula_relatorio ext self)"
  assumes "dom (casosMunicipios self) \<subseteq> set (MUNICIPIOS ext)"
  shows "casosConfirmados (totalGeral r) =
           casosConfirmados (importadosOuIndefinidos r)
           + (\<Sum>m\<in>dom (casosMunicipios r). casosConfirmados (the (casosMunicipios r m))) \<and>
         obitos (totalGeral r) =
           obitos (importadosOuIndefinidos r)
           + (\<Sum>m\<in>dom (casosMunicipios r). obitos (the (casosMunicipios r m)))"
proof -
  have "conserva r"
  proof (cases "linhasRelatorio self")
    case None
    with conserva_zera [OF assms(2)] show ?thesis
      by (simp add: r_def popula_relatorio_def Let_def)
  next
    case (Some ls)
    from popula_linhas_invariante [of conserva, OF conserva_zera [OF assms(2)]]
      contabiliza_caso_conserva
    have "conserva (estado_final (popula_linhas ext (zera_relatorio ext self) ls))" by blast
    with Some show ?thesis by (simp add: r_def popula_relatorio_def Let_def)
  qed
  then show ?thesis by (simp add: conserva_def)
qed

subsection \<open>Idempotence\<close>

lemma contagem_zerada:
  "(x::contagem)\<lparr> casosConfirmados := a, obitos := b \<rparr> = \<lparr> casosConfirmados = a, obitos = b \<rparr>"
  by (cases x) simp

lemma popula_linhas_base:
  "csv (estado_final (popula_linhas ext s ls)) = csv s \<and>
   linhasRelatorio (estado_final (popula_linhas ext s ls)) = linhasRelatorio s \<and>
   dom (casosMunicipios (estado_final (popula_linhas ext s ls))) = dom (casosMunicipios s)"
proof (rule popula_linhas_invariante
    [of "\<lambda>r. csv r = csv s \<and> linhasRelatorio r = linhasRelatorio s \<and>
              dom (casosMunicipios r) = dom (casosMunicipios s)"])
  show "csv s = csv s \<and> linhasRelatorio s = linhasRelatorio s \<and>
        dom (casosMunicipios s) = dom (casosMunicipios s)" by simp
next
  fix r c r'
  assume a: "csv r = csv s \<and> linhasRelatorio r = linhasRelatorio s \<and>
              dom (casosMunicipios r) = dom (casosMunicipios s)"
    and b: "contabiliza_caso ext r c = Inr r'"
  from b show "csv r' = csv s \<and> linhasRelatorio r' = linhasRelatorio s \<and>
              dom (casosMunicipios r') = dom (casosMunicipios s)"
  proof (cases rule: contabiliza_caso_Inr)
    case (classificado m mun mun')
    from classificado(3) have "dom ((casosMunicipios r)(m \<mapsto> mun')) = dom (casosMunicipios r)"
      by auto
    with a classificado(12,13) show ?thesis by (simp only: classificado(4))
  next
    case (indefinido m)
    with a show ?thesis by simp
  qed
qed

lemma zera_relatorio_igual:
  assumes "csv r = csv s" and "linhasRelatorio r = linhasRelatorio s"
      and "dom (casosMunicipios r) \<subseteq> set (MUNICIPIOS ext)"
      and "dom (casosMunicipios s) \<subseteq> set (MUNICIPIOS ext)"
  shows "zera_relatorio ext r = zera_relatorio ext s"
proof (rule Relatorio.equality)
  show "casosMunicipios (zera_relatorio ext r) = casosMunicipios (zera_relatorio ext s)"
  proof
    fix k
    have "casosMunicipios r k = None" "casosMunicipios s k = None" if "k \<notin> set (MUNICIPIOS ext)"
      using that assms(3,4) by (meson domIff subsetD)+
    then show "casosMunicipios (zera_relatorio ext r) k = casosMunicipios (zera_relatorio ext s) k"
      by (simp add: casosMunicipios_zera)
  qed
qed (simp_all add: assms contagem_zerada)

text \<open>
  Claim C6. A second pass of \<open>popula_relatorio\<close> over the report the first pass left (same
  rows) ends exactly as the first pass did: the same report, with the same counters of
  every municipality, the same totals and the same \<open>nMunicipiosInfectados\<close> (or the same
  exception). The pass starts by resetting the counters and by putting a fresh
  \<open>Municipio\<close> under every name of the registry, which is what the dictionary of a report
  built by the constructor holds.
\<close>

theorem popula_relatorio_idempotente:
  assumes "dom (casosMunicipios self) \<subseteq> set (MUNICIPIOS ext)"
  shows "popula_relatorio ext (estado_final (popula_relatorio ext self)) =
           popula_relatorio ext self"
proof (cases "linhasRelatorio self")
  case None
  have d: "dom (casosMunicipios (zera_relatorio ext self)) \<subseteq> set (MUNICIPIOS ext)"
    using assms by (simp add: dom_zera)
  have "zera_relatorio ext (zera_relatorio ext self) = zera_relatorio ext self"
    by (rule zera_relatorio_igual [OF _ _ d assms]) simp_all
  with None show ?thesis by (simp add: popula_relatorio_def Let_def)
next
  case (Some ls)
  let ?r = "estado_final (popula_linhas ext (zera_relatorio ext self) ls)"
  from popula_linhas_base [of ext "zera_relatorio ext self" ls]
  have b: "csv ?r = csv self" "linhasRelatorio ?r = linhasRelatorio self"
    "dom (casosMunicipios ?r) = dom (casosMunicipios self) \<union> set (MUNICIPIOS ext)"
    by (simp_all add: dom_zera)
  from b(3) assms have "dom (casosMunicipios ?r) \<subseteq> set (MUNICIPIOS ext)" by auto
  from zera_relatorio_igual [OF b(1,2) this assms]
  have "zera_relatorio ext ?r = zera_relatorio ext self" .
  with Some b(2) show ?thesis by (simp add: popula_relatorio_def Let_def)
qed

subsection \<open>Newly infected municipalities\<close>

lemma popula_linha_classificada:
  assumes "Caso_init ext linha = Inr caso" and "municipio caso = PStr m"
      and "remove_caracteres_especiais ext (upper ext m) \<in> set (MUNICIPIOS ext)"
      and "casosMunicipios s m = Some mun"
  shows "\<exists>r mun'. popula_linha ext s linha = Inr r \<and>
           casosMunicipios r = (casosMunicipios s)(m \<mapsto> mun') \<and>
           casosConfirmados mun' = casosConfirmados mun + 1 \<and>
           nMunicipiosInfectados r =
             nMunicipiosInfectados s + (if casosConfirmados mun = 0 then 1 else 0)"
proof -
  from assms obtain r where r: "contabiliza_caso ext s caso = Inr r"
    by (simp add: contabiliza_caso_def Let_def)
  from r show ?thesis
  proof (cases rule: contabiliza_caso_Inr)
    case (classificado m' mun0 mun')
    with assms r show ?thesis by (auto simp: popula_linha_def)
  next
    case (indefinido m')
    with assms show ?thesis by simp
  qed
qed

lemma popula_linhas_contagem_positiva:
  assumes "popula_linhas ext s ls = Inr r"
      and "\<exists>mun. casosMunicipios s m = Some mun \<and> 1 \<le> casosConfirmados mun"
  shows "\<exists>mun. casosMunicipios r m = Some mun \<and> 1 \<le> casosConfirmados mun"
proof -
  have "(\<exists>mun. casosMunicipios (estado_final (popula_linhas ext s ls)) m = Some mun
               \<and> 1 \<le> casosConfirmados mun)"
  proof (rule popula_linhas_invariante
      [of "\<lambda>r. \<exists>mun. casosMunicipios r m = Some mun \<and> 1 \<le> casosConfirmados mun"])
    show "\<exists>mun. casosMunicipios s m = Some mun \<and> 1 \<le> casosConfirmados mun"
      by (rule assms(2))
  next
    fix q c q'
    assume a: "\<exists>mun. casosMunicipios q m = Some mun \<and> 1 \<le> casosConfirmados mun"
      and b: "contabiliza_caso ext q c = Inr q'"
    from b show "\<exists>mun. casosMunicipios q' m = Some mun \<and> 1 \<le> casosConfirmados mun"
    proof (cases rule: contabiliza_caso_Inr)
      case (classificado k mun mun')
      show ?thesis
      proof (cases "k = m")
        case True
        with a classificado(3,4,5) show ?thesis by auto
      next
        case False
        with a classificado(4) show ?thesis by auto
      qed
    next
      case (indefinido k)
      with a show ?thesis by simp
    qed
  qed
  with assms(1) show ?thesis by simp
qed

text \<open>
  Claim C7. When a municipality has no confirmed case yet, the row that brings its first
  case raises \<open>nMunicipiosInfectados\<close> by exactly one; after any further rows of the same
  pass, another row of the same municipality is counted without changing
  \<open>nMunicipiosInfectados\<close>. Nothing is assumed about the outcome (\<open>evolucao\<close>) of the two
  cases, so the count does not depend on deaths.
\<close>

theorem primeiro_caso_incrementa_municipios_infectados:
  assumes "Caso_init ext linha1 = Inr caso1" and "municipio caso1 = PStr m"
      and "Caso_init ext linha2 = Inr caso2" and "municipio caso2 = PStr m"
      and "remove_caracteres_especiais ext (upper ext m) \<in> set (MUNICIPIOS ext)"
      and "casosMunicipios self m = Some mun" and "casosConfirmados mun = 0"
  shows "\<exists>r1. popula_linha ext self linha1 = Inr r1 \<and>
           nMunicipiosInfectados r1 = nMunicipiosInfectados self + 1 \<and>
           (\<forall>meio r2. popula_linhas ext r1 meio = Inr r2 \<longrightarrow>
              (\<exists>r3. popula_linha ext r2 linha2 = Inr r3 \<and>
                    nMunicipiosInfectados r3 = nMunicipiosInfectados r2))"
proof -
  from popula_linha_classificada [OF assms(1,2,5,6)] assms(7)
  obtain r1 mun1 where r1: "popula_linha ext self linha1 = Inr r1"
    and m1: "casosMunicipios r1 = (casosMunicipios self)(m \<mapsto> mun1)"
      "casosConfirmados mun1 = 1"
    and n1: "nMunicipiosInfectados r1 = nMunicipiosInfectados self + 1"
    by auto
  have "\<exists>r3. popula_linha ext r2 linha2 = Inr r3 \<and>
             nMunicipiosInfectados r3 = nMunicipiosInfectados r2"
    if meio: "popula_linhas ext r1 meio = Inr r2" for meio r2
  proof -
    from m1 have "\<exists>mun. casosMunicipios r1 m = Some mun \<and> 1 \<le> casosConfirmados mun"
      by simp
    from popula_linhas_contagem_positiva [OF meio this]
    obtain mun2 where m2: "casosMunicipios r2 m = Some mun2" "1 \<le> casosConfirmados mun2"
      by blast
    from popula_linha_classificada [OF assms(3,4,5) m2(1)] m2(2)
    show ?thesis by auto
  qed
  with r1 n1 show ?thesis by blast
qed

subsection \<open>Raw names as keys of the dictionary\<close>

text \<open>
  Claim C10. The pass tests the registry with the normalised name (special characters
  removed, upper case) but indexes the dictionary, whose keys are the names of the
  registry, with the name as the row has it. So, with a registry of canonical names, a row
  whose normalised name is in the registry is counted without error exactly when its raw
  name is already the canonical one; otherwise the pass aborts on that row with the
  \<open>KeyError\<close> of the raw name.
\<close>

theorem popula_relatorio_indexa_nome_bruto:
  assumes "linhasRelatorio self = Some (antes @ linha # depois)"
      and "dom (casosMunicipios self) \<subseteq> set (MUNICIPIOS ext)"
      and "\<forall>k \<in> set (MUNICIPIOS ext). remove_caracteres_especiais ext (upper ext k) = k"
      and "popula_linhas ext (zera_relatorio ext self) antes = Inr r"
      and "Caso_init ext linha = Inr caso" and "municipio caso = PStr m"
      and "remove_caracteres_especiais ext (upper ext m) \<in> set (MUNICIPIOS ext)"
  shows "((\<exists>r'. popula_linha ext r linha = Inr r') \<longleftrightarrow>
            m = remove_caracteres_especiais ext (upper ext m)) \<and>
         (m \<noteq> remove_caracteres_especiais ext (upper ext m) \<longrightarrow>
            popula_relatorio ext self = Inl (KeyError m, r))"
proof -
  from popula_linhas_base [of ext "zera_relatorio ext self" antes] assms(2,4)
  have d: "dom (casosMunicipios r) = set (MUNICIPIOS ext)"
    by (auto simp: dom_zera)
  have chave: "m \<in> set (MUNICIPIOS ext) \<longleftrightarrow> m = remove_caracteres_especiais ext (upper ext m)"
    using assms(3,7) by auto
  show ?thesis
  proof (cases "m \<in> set (MUNICIPIOS ext)")
    case True
    with d obtain mun where "casosMunicipios r m = Some mun" by auto
    from popula_linha_classificada [OF assms(5,6,7) this] True chave
    show ?thesis by auto
  next
    case False
    with d have n: "casosMunicipios r m = None" by auto
    with assms(5,6,7) have f: "popula_linha ext r linha = Inl (KeyError m, r)"
      by (simp add: popula_linha_def contabiliza_caso_def)
    with assms(1,4) have "popula_relatorio ext self = Inl (KeyError m, r)"
      by (simp add: popula_relatorio_def Let_def popula_linhas_append)
    with f False chave show ?thesis by simp
  qed
qed

section \<open>Properties of the lookup and of the filters\<close>

subsection \<open>Lookup\<close>

lemma contem_meio: "contem sub (antes @ sub @ depois)"
proof (induction antes)
  case Nil
  show ?case
  proof (cases "sub @ depois")
    case Nil
    then show ?thesis by simp
  next
    case (Cons a resto)
    have "take (length sub) (sub @ depois) = sub" by simp
    then have "contem sub (sub @ depois)" unfolding Cons by simp
    then show ?thesis by simp
  qed
next
  case (Cons a antes)
  then show ?case by simp
qed

text \<open>On ASCII text, putting in upper case keeps white space and the other characters.\<close>

lemma isspace_upper_ascii [simp]: "isspace (upper_ascii c) = isspace c"
  by (auto simp: isspace_def upper_ascii_def Let_def)

lemma ascii_upper_ascii [simp]: "ascii (upper_ascii c) = ascii c"
  by (auto simp: ascii_def upper_ascii_def Let_def)

lemma upper_de_ascii: "list_all ascii s \<Longrightarrow> upper ext s = map upper_ascii s"
  by (simp add: upper_def)

text \<open>Trimming a core wrapped in white space gives the core.\<close>

lemma apara_nucleo:
  assumes "list_all isspace ws1" and "list_all isspace ws2"
      and "k = [] \<or> (\<not> isspace (hd k) \<and> \<not> isspace (last k))"
  shows "rev (dropWhile isspace (rev (dropWhile isspace (ws1 @ k @ ws2)))) = k"
proof (cases "k = []")
  case True
  have "\<forall>x \<in> set (ws1 @ ws2). isspace x" using assms(1,2) by (auto simp: list_all_iff)
  then have "dropWhile isspace (ws1 @ ws2) = []" by (simp only: dropWhile_eq_Nil_conv)
  then have "rev (dropWhile isspace (rev (dropWhile isspace (ws1 @ [] @ ws2)))) = []"
    by (simp only: append_Nil rev.simps dropWhile.simps)
  with True show ?thesis by (simp only:)
next
  case False
  with assms(3) have h: "\<not> isspace (hd k)" and l: "\<not> isspace (last k)" by simp_all
  from False h have d1: "dropWhile isspace (k @ ws2) = k @ ws2"
    by (cases k) simp_all
  have "dropWhile isspace (ws1 @ k @ ws2) = dropWhile isspace (k @ ws2)"
    using assms(1) by (intro dropWhile_append2) (simp add: list_all_iff)
  with d1 have e1: "dropWhile isspace (ws1 @ k @ ws2) = k @ ws2" by simp
  from False l have d2: "dropWhile isspace (rev k) = rev k"
    by (cases "rev k") (simp_all add: last_rev [symmetric] del: last_rev)
  have "dropWhile isspace (rev ws2 @ rev k) = dropWhile isspace (rev k)"
    using assms(2) by (intro dropWhile_append2) (simp add: list_all_iff)
  with d2 have "dropWhile isspace (rev (k @ ws2)) = rev k" by simp
  with e1 show ?thesis by simp
qed

lemma strip_upper_nucleo:
  assumes "list_all ascii (ws1 @ k @ ws2)"
      and "list_all isspace ws1" and "list_all isspace ws2"
      and "k = [] \<or> (\<not> isspace (hd k) \<and> \<not> isspace (last k))"
  shows "strip ext (upper ext (ws1 @ k @ ws2)) = map upper_ascii k"
proof -
  have u: "upper ext (ws1 @ k @ ws2) =
             map upper_ascii ws1 @ map upper_ascii k @ map upper_ascii ws2"
    using assms(1) by (simp add: upper_de_ascii)
  have a: "list_all ascii (map upper_ascii ws1 @ map upper_ascii k @ map upper_ascii ws2)"
    using assms(1) by (auto simp: list_all_iff)
  have w: "list_all isspace (map upper_ascii ws1)" "list_all isspace (map upper_ascii ws2)"
    using assms(2,3) by (simp_all add: list_all_iff)
  have n: "map upper_ascii k = [] \<or>
           (\<not> isspace (hd (map upper_ascii k)) \<and> \<not> isspace (last (map upper_ascii k)))"
    using assms(4) by (cases "k = []") (simp_all add: hd_map last_map)
  from apara_nucleo [OF w n] a show ?thesis
    unfolding u by (simp only: strip_def if_True)
qed

text \<open>
  Claim C9. For every name, \<open>busca_casos_municipio\<close> strips the special characters of
  the name, puts the result in upper case and trims it, and returns the \<open>Municipio\<close> stored
  under that key; when there is none it raises \<open>RelatorioError\<close> with a message that
  contains the name exactly as it was given. On ASCII text the key is computed here: when
  the name without its special characters is white space, a core and white space, the key
  is the core with its letters \<open>a\<close> to \<open>z\<close> in upper case.
\<close>

theorem busca_casos_municipio_normaliza_ou_falha:
  "busca_casos_municipio ext self m =
     (case casosMunicipios self (strip ext (upper ext (remove_caracteres_especiais ext m))) of
        Some mun \<Rightarrow> Inr mun
      | None \<Rightarrow> Inl (RelatorioError (msg_nao_encontrado m)))
   \<and> contem m (msg_nao_encontrado m)
   \<and> (remove_caracteres_especiais ext m = ws1 @ k @ ws2 \<and> list_all ascii (ws1 @ k @ ws2) \<and>
      list_all isspace ws1 \<and> list_all isspace ws2 \<and>
      (k = [] \<or> (\<not> isspace (hd k) \<and> \<not> isspace (last k)))
      \<longrightarrow> strip ext (upper ext (remove_caracteres_especiais ext m)) = map upper_ascii k)"
proof (intro conjI impI)
  show "busca_casos_municipio ext self m =
     (case casosMunicipios self (strip ext (upper ext (remove_caracteres_especiais ext m))) of
        Some mun \<Rightarrow> Inr mun
      | None \<Rightarrow> Inl (RelatorioError (msg_nao_encontrado m)))"
    by (simp add: busca_casos_municipio_def Let_def)
  have "msg_nao_encontrado m =
     (''O munic'' @ [CHR 0xC3, CHR 0xAD] @ ''pio '' @ [CHR 0x27]) @ m @ ([CHR 0x27] @ '' n''
     @ [CHR 0xC3, CHR 0xA3] @ ''o foi encontrado no relat'' @ [CHR 0xC3, CHR 0xB3]
     @ ''rio. Pode ter ocorrido um erro de digita'' @ [CHR 0xC3, CHR 0xA7, CHR 0xC3, CHR 0xA3]
     @ ''o ou o munic'' @ [CHR 0xC3, CHR 0xAD] @ ''pio n'' @ [CHR 0xC3, CHR 0xA3]
     @ ''o registrou casos de COVID-19.'')"
    by (simp add: msg_nao_encontrado_def)
  then show "contem m (msg_nao_encontrado m)"
    by (simp only: contem_meio)
next
  assume h: "remove_caracteres_especiais ext m = ws1 @ k @ ws2 \<and> list_all ascii (ws1 @ k @ ws2) \<and>
      list_all isspace ws1 \<and> list_all isspace ws2 \<and>
      (k = [] \<or> (\<not> isspace (hd k) \<and> \<not> isspace (last k)))"
  then have "strip ext (upper ext (ws1 @ k @ ws2)) = map upper_ascii k"
    by (intro strip_upper_nucleo) simp_all
  with h show "strip ext (upper ext (remove_caracteres_especiais ext m)) = map upper_ascii k"
    by simp
qed

subsection \<open>Date filters\<close>

lemma filtra_linhas_filter:
  assumes "\<forall>c \<in> set ls. c \<noteq> [] \<and> arrow_get_formatos ext (c ! 0) \<noteq> None"
  shows "filtra_linhas cond ext ls =
           Inr (filter (\<lambda>c. cond (the (arrow_get_formatos ext (c ! 0)))) ls)"
  using assms by (induction ls) (auto simp: entao_def)

text \<open>What the two filters compute when the target date and the date of every row are read.\<close>

lemma filtros_pela_data:
  fixes ext :: "('d::linorder) externos"
  assumes "linhasRelatorio (relatorio self) \<noteq> None"
      and "linhasRelatorio (relatorio self) \<noteq> Some []"
      and "leitor_linhasRelatorio self = Some (cab # linhas)"
      and "arrow_get_formatos ext dia = Some alvo"
      and "\<forall>c \<in> set linhas. c \<noteq> [] \<and> arrow_get_formatos ext (c ! 0) \<noteq> None"
  shows "filtra_casos_ate_dia ext self dia =
           (case popula_relatorio ext ((relatorio self)\<lparr> linhasRelatorio :=
                   Some (filter (\<lambda>c. the (arrow_get_formatos ext (c ! 0)) \<le> alvo) linhas) \<rparr>) of
              Inl (e, r) \<Rightarrow> Inl (e, self\<lparr> relatorio := r \<rparr>)
            | Inr r \<Rightarrow> Inr (self\<lparr> relatorio := r \<rparr>)) \<and>
         linhasRelatorio (relatorio (estado_final (filtra_casos_ate_dia ext self dia))) =
           Some (filter (\<lambda>c. the (arrow_get_formatos ext (c ! 0)) \<le> alvo) linhas) \<and>
         filtra_casos_no_dia ext self dia =
           (case popula_relatorio ext ((relatorio self)\<lparr> linhasRelatorio :=
                   Some (filter (\<lambda>c. the (arrow_get_formatos ext (c ! 0)) = alvo) linhas) \<rparr>) of
              Inl (e, r) \<Rightarrow> Inl (e, self\<lparr> relatorio := r \<rparr>)
            | Inr r \<Rightarrow> Inr (self\<lparr> relatorio := r \<rparr>)) \<and>
         linhasRelatorio (relatorio (estado_final (filtra_casos_no_dia ext self dia))) =
           Some (filter (\<lambda>c. the (arrow_get_formatos ext (c ! 0)) = alvo) linhas)"
proof -
  have geral: "filtra_casos compara ext self dia =
           (case popula_relatorio ext ((relatorio self)\<lparr> linhasRelatorio :=
                   Some (filter (\<lambda>c. compara alvo (the (arrow_get_formatos ext (c ! 0)))) linhas) \<rparr>) of
              Inl (e, r) \<Rightarrow> Inl (e, self\<lparr> relatorio := r \<rparr>)
            | Inr r \<Rightarrow> Inr (self\<lparr> relatorio := r \<rparr>))" for compara
    using assms(1-4) by (simp add: filtra_casos_def filtra_linhas_filter [OF assms(5)])
  have linhas: "linhasRelatorio (estado_final (popula_relatorio ext q)) = linhasRelatorio q" for q
  proof (cases "linhasRelatorio q")
    case None
    then show ?thesis by (simp add: popula_relatorio_def Let_def)
  next
    case (Some ls)
    with popula_linhas_base [of ext "zera_relatorio ext q" ls] show ?thesis
      by (simp add: popula_relatorio_def Let_def)
  qed
  have fim: "linhasRelatorio (relatorio (estado_final (filtra_casos compara ext self dia))) =
           Some (filter (\<lambda>c. compara alvo (the (arrow_get_formatos ext (c ! 0)))) linhas)" for compara
    using linhas [of "(relatorio self)\<lparr> linhasRelatorio :=
                   Some (filter (\<lambda>c. compara alvo (the (arrow_get_formatos ext (c ! 0)))) linhas) \<rparr>"]
    unfolding geral by (auto split: sum.splits)
  from geral [of "\<lambda>dataArrow d. dataArrow \<ge> d"] geral [of "\<lambda>dataArrow d. dataArrow = d"]
    fim [of "\<lambda>dataArrow d. dataArrow \<ge> d"] fim [of "\<lambda>dataArrow d. dataArrow = d"]
  show ?thesis
    by (simp add: filtra_casos_ate_dia_def filtra_casos_no_dia_def eq_commute)
qed

text \<open>
  Claim C3, amended. Take a reader whose report has rows and whose loaded rows are a first
  row (index 0, left out) followed by rows that are not empty and whose dates \<open>arrow\<close> can
  read, and a target date that \<open>arrow\<close> can read. Then \<open>filtra_casos_ate_dia\<close> keeps only
  rows after the first whose date is at most the target date, and of the rows classified
  \<open>"Confirmados"\<close> it keeps exactly those whose date is at most the target date, in their
  order; \<open>filtra_casos_no_dia\<close> keeps exactly the rows after the first whose date is the
  target date; each filter stores the kept rows in the report and runs \<open>popula_relatorio\<close>
  on them. (Whether \<open>filtra_casos_ate_dia\<close> keeps a row of another classification is
  left aside.)
\<close>

theorem filtros_confirmados_pela_data:
  fixes ext :: "('d::linorder) externos"
  assumes "linhasRelatorio (relatorio self) \<noteq> None"
      and "linhasRelatorio (relatorio self) \<noteq> Some []"
      and "leitor_linhasRelatorio self = Some (cab # linhas)"
      and "arrow_get_formatos ext dia = Some alvo"
      and "\<forall>c \<in> set linhas. c \<noteq> [] \<and> arrow_get_formatos ext (c ! 0) \<noteq> None"
  shows "(\<exists>mantidas.
            filtra_casos_ate_dia ext self dia =
              (case popula_relatorio ext
                      ((relatorio self)\<lparr> linhasRelatorio := Some mantidas \<rparr>) of
                 Inl (e, r) \<Rightarrow> Inl (e, self\<lparr> relatorio := r \<rparr>)
               | Inr r \<Rightarrow> Inr (self\<lparr> relatorio := r \<rparr>)) \<and>
            linhasRelatorio (relatorio (estado_final (filtra_casos_ate_dia ext self dia))) =
              Some mantidas \<and>
            (\<forall>c \<in> set mantidas.
               c \<in> set linhas \<and> the (arrow_get_formatos ext (c ! 0)) \<le> alvo) \<and>
            filter (\<lambda>c. c ! 1 = PStr ''Confirmados'') mantidas =
              filter (\<lambda>c. c ! 1 = PStr ''Confirmados'' \<and>
                          the (arrow_get_formatos ext (c ! 0)) \<le> alvo) linhas) \<and>
         filtra_casos_no_dia ext self dia =
           (case popula_relatorio ext ((relatorio self)\<lparr> linhasRelatorio :=
                   Some (filter (\<lambda>c. the (arrow_get_formatos ext (c ! 0)) = alvo) linhas) \<rparr>) of
              Inl (e, r) \<Rightarrow> Inl (e, self\<lparr> relatorio := r \<rparr>)
            | Inr r \<Rightarrow> Inr (self\<lparr> relatorio := r \<rparr>)) \<and>
         linhasRelatorio (relatorio (estado_final (filtra_casos_no_dia ext self dia))) =
           Some (filter (\<lambda>c. the (arrow_get_formatos ext (c ! 0)) = alvo) linhas)"
proof -
  let ?m = "filter (\<lambda>c. the (arrow_get_formatos ext (c ! 0)) \<le> alvo) linhas"
  note f = filtros_pela_data [OF assms]
  have "\<forall>c \<in> set ?m. c \<in> set linhas \<and> the (arrow_get_formatos ext (c ! 0)) \<le> alvo"
    by simp
  moreover have "filter (\<lambda>c. c ! 1 = PStr ''Confirmados'') ?m =
              filter (\<lambda>c. c ! 1 = PStr ''Confirmados'' \<and>
                          the (arrow_get_formatos ext (c ! 0)) \<le> alvo) linhas"
    by (simp add: conj_commute)
  ultimately have a: "\<exists>mantidas.
            filtra_casos_ate_dia ext self dia =
              (case popula_relatorio ext
                      ((relatorio self)\<lparr> linhasRelatorio := Some mantidas \<rparr>) of
                 Inl (e, r) \<Rightarrow> Inl (e, self\<lparr> relatorio := r \<rparr>)
               | Inr r \<Rightarrow> Inr (self\<lparr> relatorio := r \<rparr>)) \<and>
            linhasRelatorio (relatorio (estado_final (filtra_casos_ate_dia ext self dia))) =
              Some mantidas \<and>
            (\<forall>c \<in> set mantidas.
               c \<in> set linhas \<and> the (arrow_get_formatos ext (c ! 0)) \<le> alvo) \<and>
            filter (\<lambda>c. c ! 1 = PStr ''Confirmados'') mantidas =
              filter (\<lambda>c. c ! 1 = PStr ''Confirmados'' \<and>
                          the (arrow_get_formatos ext (c ! 0)) \<le> alvo) linhas"
    using f [THEN conjunct1] f [THEN conjunct2, THEN conjunct1]
    by (intro exI [of _ ?m] conjI)
  show ?thesis
    by (rule conjI [OF a f [THEN conjunct2, THEN conjunct2]])
qed

section \<open>Evaluation on the concrete rows\<close>

lemmas defs_exemplo = linha_exemplo_def ext_exemplo_def data_exemplo_def Nao_def
  Nao_encontrado_def Obito_pelo_COVID19_def
lemmas defs_trata = trata_dados_linha_def converte_data_def anula_se_igual_def
  anula_se_contem_def stringParaBool_def

lemma upper_exemplo:
  "upper ext_exemplo ''VITORIA'' = ''VITORIA''" "upper ext_exemplo ''SERRA'' = ''SERRA''"
  "upper ext_exemplo ''Vitoria'' = ''VITORIA''"
  "upper ext_exemplo ''OUTRO ESTADO'' = ''OUTRO ESTADO''"
  by code_simp+

lemma trata_exemplo:
  "trata_dados_linha ext_exemplo (linha_exemplo ''10/03/2020'' ''Confirmados'' ''Cura'' ''VITORIA'') =
   Inr [PDate 20200310, PStr ''Confirmados'', PStr ''Cura'', PStr ''Laboratorial'',
        PStr ''Encerrado'', PStr ''VITORIA'', PStr ''CENTRO'', PStr ''30 a 39 anos'', PStr ''F'',
        PStr ''Parda'', PNone, PStr ''Sim'', PBool True, PBool False, PNone, PNone,
        PBool True, PNone, PBool True, PBool False, PBool False, PBool False, PBool False,
        PBool False, PBool False, PNone, PNone]"
  by (simp add: defs_exemplo defs_trata)

lemma Caso_init_exemplo:
  assumes "data_exemplo (PStr dia) = Some n"
  shows "Caso_init ext_exemplo (linha_exemplo dia classe desfecho mun) = Inr \<lparr>
         data = PDate n, classificacao = PStr classe,
         evolucao = (if desfecho = ''Ignorado'' \<or> desfecho = ''-'' then PNone else PStr desfecho),
         criterioConfirmacao = PStr ''Laboratorial'',
         statusNotificacao = PStr ''Encerrado'', municipio = PStr mun, bairro = PStr ''CENTRO'',
         faixaEtaria = PStr ''30 a 39 anos'', sexo = PStr ''F'', racaCor = PStr ''Parda'',
         escolaridade = PNone,
         sintomas = Some [
           (''febre'', PStr ''Sim''), (''dificuldadeRespiratoria'', PBool True),
           (''tosse'', PBool False), (''coriza'', PNone), (''dorGarganta'', PNone),
           (''diarreia'', PBool True), (''cefaleia'', PNone)],
         comorbidades = Some [
           (''comorbidadePulmao'', PBool True), (''comorbidadeCardio'', PBool False),
           (''comorbidadeRenal'', PBool False), (''comorbidadeDiabetes'', PBool False),
           (''comorbidadeTabagismo'', PBool False), (''comorbidadeObesidade'', PBool False)],
         ficouInternado = PBool False, viagemBrasil = PNone, viagemInternacional = PNone \<rparr>"
  using assms
  by (simp add: Caso_init_def carrega_dados_linha_def defs_trata linha_exemplo_def
      ext_exemplo_def Nao_def Nao_encontrado_def)


lemmas defs_popula = popula_relatorio_def zera_relatorio_def inicializa_dicionario_municipios_def
  relatorio_exemplo_def Relatorio_init_def Municipio_init_def popula_linha_def contabiliza_caso_def

lemma data_exemplo_dias:
  "data_exemplo (PStr ''10/03/2020'') = Some 20200310"
  "data_exemplo (PStr ''11/03/2020'') = Some 20200311"
  "data_exemplo (PStr ''12/03/2020'') = Some 20200312"
  "data_exemplo (PStr ''31/02/2020'') = None"
  by (simp_all add: data_exemplo_def)

lemma externos_exemplo [simp]:
  "MUNICIPIOS ext_exemplo = [''SERRA'', ''VITORIA'']"
  "remove_caracteres_especiais ext_exemplo = filter (\<lambda>c. c \<noteq> CHR ''-'' \<and> c \<noteq> CHR ''.'')"
  "arrow_get ext_exemplo = data_exemplo"
  "arrow_get_formatos ext_exemplo = data_exemplo"
  by (simp_all add: ext_exemplo_def)

lemma Caso_init_powerbi_exemplo:
  assumes "data_exemplo (PStr dia) = Some n"
  shows "Caso_init_powerbi ext_exemplo (linha_exemplo dia classe desfecho mun) = Inr \<lparr>
         data = PDate n, classificacao = PStr classe,
         evolucao = (if desfecho = ''Ignorado'' \<or> desfecho = ''-'' then PNone else PStr desfecho),
         criterioConfirmacao = PStr ''Laboratorial'',
         statusNotificacao = PStr ''Encerrado'', municipio = PStr mun, bairro = PStr ''CENTRO'',
         faixaEtaria = PStr ''30 a 39 anos'', sexo = PStr ''F'', racaCor = PStr ''Parda'',
         escolaridade = PNone,
         sintomas = Some [
           (''cefaleia'', PStr ''Sim''), (''coriza'', PBool True), (''diarreia'', PBool False),
           (''dificuldadeRespiratoria'', PNone), (''dorGarganta'', PNone),
           (''febre'', PBool True), (''tosse'', PNone)],
         comorbidades = Some [
           (''comorbidadeCardio'', PBool True), (''comorbidadeDiabetes'', PBool False),
           (''comorbidadePulmao'', PBool False), (''comorbidadeRenal'', PBool False),
           (''comorbidadeTabagismo'', PBool False), (''comorbidadeObesidade'', PBool False)],
         ficouInternado = PBool False, viagemBrasil = PNone, viagemInternacional = PNone \<rparr>"
  using assms
  by (simp add: Caso_init_powerbi_def carrega_dados_linha_powerbi_def defs_trata linha_exemplo_def
      Nao_def Nao_encontrado_def)

lemma dom_Relatorio_init:
  "dom (casosMunicipios (Relatorio_init ext caminho linhas)) = set (MUNICIPIOS ext)"
  by (auto simp: Relatorio_init_def inicializa_dicionario_municipios_def inicializa_foldl
      split: if_splits)

lemma dom_relatorio_exemplo:
  "dom (casosMunicipios (relatorio_exemplo linhas)) \<subseteq> set (MUNICIPIOS ext_exemplo)"
  by (simp only: relatorio_exemplo_def dom_Relatorio_init)

lemma linhas_relatorio_exemplo [simp]:
  "linhasRelatorio (relatorio_exemplo linhas) = Some linhas"
  by (simp add: relatorio_exemplo_def Relatorio_init_def inicializa_dicionario_municipios_def)

text \<open>
  Claim C1 does not hold of \<open>relatorio.py\<close>: its \<open>popula_relatorio\<close> never reads the
  classification. A single row classified \<open>"Descartados"\<close> is counted as a confirmed case:
  in the general total, in its municipality and as a newly infected municipality.
\<close>

theorem popula_relatorio_conta_linha_nao_confirmada:
  "\<not> isl (popula_relatorio ext_exemplo
            (relatorio_exemplo [linha_exemplo ''10/03/2020'' ''Descartados'' ''Cura'' ''VITORIA''])) \<and>
   totalGeral (estado_final (popula_relatorio ext_exemplo
            (relatorio_exemplo [linha_exemplo ''10/03/2020'' ''Descartados'' ''Cura'' ''VITORIA''])))
     = \<lparr> casosConfirmados = 1, obitos = 0 \<rparr> \<and>
   map_option casosConfirmados (casosMunicipios (estado_final (popula_relatorio ext_exemplo
            (relatorio_exemplo [linha_exemplo ''10/03/2020'' ''Descartados'' ''Cura'' ''VITORIA''])))
        ''VITORIA'') = Some 1 \<and>
   nMunicipiosInfectados (estado_final (popula_relatorio ext_exemplo
            (relatorio_exemplo [linha_exemplo ''10/03/2020'' ''Descartados'' ''Cura'' ''VITORIA''])))
     = 1"
  by (simp add: defs_popula Caso_init_exemplo data_exemplo_dias upper_exemplo Let_def
      Obito_pelo_COVID19_def)

text \<open>The older script leaves the report untouched on the same row.\<close>

lemma popula_relatorio_powerbi_exemplo:
  "popula_relatorio_powerbi ext_exemplo
     (relatorio_exemplo [linha_exemplo ''10/03/2020'' ''Descartados'' ''Cura'' ''VITORIA''])
   = Inr (relatorio_exemplo [linha_exemplo ''10/03/2020'' ''Descartados'' ''Cura'' ''VITORIA''])"
  by (simp add: popula_relatorio_powerbi_def popula_linha_powerbi_def Caso_init_powerbi_def
      carrega_dados_linha_powerbi_def defs_trata defs_exemplo)

text \<open>
  Claim C5 does not hold of the first symptom in \<open>parse_relatorio_powerbi.py\<close>: the loop of
  its \<open>trata_dados_linha\<close> over the flags starts at cell 12, so cell 11 is not mapped through
  \<open>stringParaBool\<close>: a row whose cell 11 is \<open>"Sim"\<close> keeps the text \<open>"Sim"\<close> there, and the
  \<open>Caso\<close> that the script builds from it has the text \<open>"Sim"\<close>, not \<open>True\<close>, as its symptom
  \<open>cefaleia\<close>. All other flags of the same row are booleans or \<open>None\<close>.
\<close>

theorem Caso_powerbi_cefaleia_nao_booleana:
  "trata_dados_linha ext_exemplo
     (linha_exemplo ''10/03/2020'' ''Confirmados'' ''Cura'' ''VITORIA'') =
   Inr [PDate 20200310, PStr ''Confirmados'', PStr ''Cura'', PStr ''Laboratorial'',
        PStr ''Encerrado'', PStr ''VITORIA'', PStr ''CENTRO'', PStr ''30 a 39 anos'', PStr ''F'',
        PStr ''Parda'', PNone, PStr ''Sim'', PBool True, PBool False, PNone, PNone,
        PBool True, PNone, PBool True, PBool False, PBool False, PBool False, PBool False,
        PBool False, PBool False, PNone, PNone] \<and>
   Caso_init_powerbi ext_exemplo
     (linha_exemplo ''10/03/2020'' ''Confirmados'' ''Cura'' ''VITORIA'') = Inr \<lparr>
         data = PDate 20200310, classificacao = PStr ''Confirmados'', evolucao = PStr ''Cura'',
         criterioConfirmacao = PStr ''Laboratorial'',
         statusNotificacao = PStr ''Encerrado'', municipio = PStr ''VITORIA'',
         bairro = PStr ''CENTRO'', faixaEtaria = PStr ''30 a 39 anos'', sexo = PStr ''F'',
         racaCor = PStr ''Parda'', escolaridade = PNone,
         sintomas = Some [
           (''cefaleia'', PStr ''Sim''), (''coriza'', PBool True), (''diarreia'', PBool False),
           (''dificuldadeRespiratoria'', PNone), (''dorGarganta'', PNone),
           (''febre'', PBool True), (''tosse'', PNone)],
         comorbidades = Some [
           (''comorbidadeCardio'', PBool True), (''comorbidadeDiabetes'', PBool False),
           (''comorbidadePulmao'', PBool False), (''comorbidadeRenal'', PBool False),
           (''comorbidadeTabagismo'', PBool False), (''comorbidadeObesidade'', PBool False)],
         ficouInternado = PBool False, viagemBrasil = PNone, viagemInternacional = PNone \<rparr>"
  by (simp add: trata_exemplo Caso_init_powerbi_exemplo data_exemplo_dias)

text \<open>
  Against claim C4 as stated: a confirmation criterion \<open>"RT-PCR"\<close> is not the placeholder
  \<open>"-"\<close>, yet it becomes \<open>None\<close>, because it contains a hyphen; and a row of three cells
  whose outcome is the placeholder \<open>"Ignorado"\<close> is not normalised at all: reading its
  cell 3 raises \<open>IndexError\<close>.
\<close>

theorem trata_dados_linha_anula_por_substring:
  "trata_dados_linha ext_exemplo
     ((linha_exemplo ''10/03/2020'' ''Confirmados'' ''Cura'' ''VITORIA'')[3 := PStr ''RT-PCR'']) =
   Inr [PDate 20200310, PStr ''Confirmados'', PStr ''Cura'', PNone,
        PStr ''Encerrado'', PStr ''VITORIA'', PStr ''CENTRO'', PStr ''30 a 39 anos'', PStr ''F'',
        PStr ''Parda'', PNone, PStr ''Sim'', PBool True, PBool False, PNone, PNone,
        PBool True, PNone, PBool True, PBool False, PBool False, PBool False, PBool False,
        PBool False, PBool False, PNone, PNone] \<and>
   (linha_exemplo ''10/03/2020'' ''Confirmados'' ''Cura'' ''VITORIA'')[3 := PStr ''RT-PCR''] ! 3
     = PStr ''RT-PCR'' \<and>
   PStr ''RT-PCR'' \<noteq> (PStr ''-'' :: nat pyval) \<and>
   trata_dados_linha ext_exemplo [PStr ''10/03/2020'', PStr ''Confirmados'', PStr ''Ignorado'']
     = Inl IndexError"
  by (simp add: defs_exemplo defs_trata)

text \<open>
  The amended claim on the row of the examples: the education \<open>"Ignorado"\<close> becomes \<open>None\<close>,
  and the texts without placeholder stay.
\<close>

theorem trata_dados_linha_sentinelas_witness:
  "\<exists>l. trata_dados_linha ext_exemplo
          (linha_exemplo ''10/03/2020'' ''Confirmados'' ''Cura'' ''VITORIA'') = Inr l \<and>
       l ! 2 = PStr ''Cura'' \<and> l ! 6 = PStr ''CENTRO'' \<and> l ! 3 = PStr ''Laboratorial'' \<and>
       l ! 9 = PStr ''Parda'' \<and> l ! 10 = PNone \<and> l ! 11 = PStr ''Sim''"
proof -
  let ?L = "linha_exemplo ''10/03/2020'' ''Confirmados'' ''Cura'' ''VITORIA''"
  obtain l where t: "trata_dados_linha ext_exemplo ?L = Inr l"
    using trata_exemplo by blast
  have L: "?L ! 2 = PStr ''Cura''" "?L ! 6 = PStr ''CENTRO''" "?L ! 3 = PStr ''Laboratorial''"
    "?L ! 9 = PStr ''Parda''" "?L ! 10 = PStr ''Ignorado''" "?L ! 11 = PStr ''Sim''"
    by (simp_all add: linha_exemplo_def)
  have n: "\<not> contem ''-'' ''Laboratorial''" "\<not> contem ''Ignorado'' ''Parda''"
    "\<not> contem ''-'' ''Sim''"
    by simp_all
  from trata_dados_linha_sentinelas [OF t] L n
  have "l ! 2 = PStr ''Cura'' \<and> l ! 6 = PStr ''CENTRO'' \<and> l ! 3 = PStr ''Laboratorial'' \<and>
       l ! 9 = PStr ''Parda'' \<and> l ! 10 = PNone \<and> l ! 11 = PStr ''Sim''"
    by (simp add: Nao_encontrado_def Nao_def)
  with t show ?thesis by blast
qed

lemmas avalia_passagem = defs_popula Caso_init_exemplo data_exemplo_dias upper_exemplo Let_def
  Obito_pelo_COVID19_def

text \<open>
  Three rows: a death in a municipality of the registry, a case from outside the registry
  and a case in another municipality. The totals are conserved.
\<close>

theorem popula_relatorio_conserva_totais_witness:
  "casosConfirmados (totalGeral (estado_final (popula_relatorio ext_exemplo (relatorio_exemplo
      [linha_exemplo ''10/03/2020'' ''Confirmados'' Obito_pelo_COVID19 ''VITORIA'',
       linha_exemplo ''11/03/2020'' ''Confirmados'' ''Cura'' ''OUTRO ESTADO'',
       linha_exemplo ''12/03/2020'' ''Confirmados'' ''Cura'' ''SERRA''])))) = 3 \<and>
   (let r = estado_final (popula_relatorio ext_exemplo (relatorio_exemplo
      [linha_exemplo ''10/03/2020'' ''Confirmados'' Obito_pelo_COVID19 ''VITORIA'',
       linha_exemplo ''11/03/2020'' ''Confirmados'' ''Cura'' ''OUTRO ESTADO'',
       linha_exemplo ''12/03/2020'' ''Confirmados'' ''Cura'' ''SERRA'']))
    in casosConfirmados (totalGeral r) =
           casosConfirmados (importadosOuIndefinidos r)
           + (\<Sum>m\<in>dom (casosMunicipios r). casosConfirmados (the (casosMunicipios r m))) \<and>
         obitos (totalGeral r) =
           obitos (importadosOuIndefinidos r)
           + (\<Sum>m\<in>dom (casosMunicipios r). obitos (the (casosMunicipios r m))))"
proof -
  note u = upper_exemplo(4)
  have "casosConfirmados (totalGeral (estado_final (popula_relatorio ext_exemplo (relatorio_exemplo
      [linha_exemplo ''10/03/2020'' ''Confirmados'' Obito_pelo_COVID19 ''VITORIA'',
       linha_exemplo ''11/03/2020'' ''Confirmados'' ''Cura'' ''OUTRO ESTADO'',
       linha_exemplo ''12/03/2020'' ''Confirmados'' ''Cura'' ''SERRA''])))) = 3"
    by (simp add: avalia_passagem u)
  with popula_relatorio_conserva_totais [OF dom_relatorio_exemplo]
  show ?thesis unfolding Let_def by blast
qed

text \<open>Two passes over two rows of two municipalities.\<close>

theorem popula_relatorio_idempotente_witness:
  "\<exists>r. popula_relatorio ext_exemplo (relatorio_exemplo
      [linha_exemplo ''10/03/2020'' ''Confirmados'' Obito_pelo_COVID19 ''VITORIA'',
       linha_exemplo ''12/03/2020'' ''Confirmados'' ''Cura'' ''SERRA'']) = Inr r \<and>
       nMunicipiosInfectados r = 2 \<and>
       popula_relatorio ext_exemplo r = Inr r"
proof -
  have "\<exists>r. popula_relatorio ext_exemplo (relatorio_exemplo
      [linha_exemplo ''10/03/2020'' ''Confirmados'' Obito_pelo_COVID19 ''VITORIA'',
       linha_exemplo ''12/03/2020'' ''Confirmados'' ''Cura'' ''SERRA'']) = Inr r \<and>
       nMunicipiosInfectados r = 2"
    by (simp add: avalia_passagem)
  then obtain r where r: "popula_relatorio ext_exemplo (relatorio_exemplo
      [linha_exemplo ''10/03/2020'' ''Confirmados'' Obito_pelo_COVID19 ''VITORIA'',
       linha_exemplo ''12/03/2020'' ''Confirmados'' ''Cura'' ''SERRA'']) = Inr r"
    and n: "nMunicipiosInfectados r = 2" by blast
  from popula_relatorio_idempotente [OF dom_relatorio_exemplo, of "[
       linha_exemplo ''10/03/2020'' ''Confirmados'' Obito_pelo_COVID19 ''VITORIA'',
       linha_exemplo ''12/03/2020'' ''Confirmados'' ''Cura'' ''SERRA'']"] r
  have "popula_relatorio ext_exemplo r = Inr r" by simp
  with r n show ?thesis by blast
qed


text \<open>
  A first case (a death) in a municipality, a case from outside the registry, and a second
  case in the same municipality.
\<close>

theorem primeiro_caso_incrementa_municipios_infectados_witness:
  "nMunicipiosInfectados (estado_final (popula_linhas ext_exemplo (relatorio_exemplo [])
      [linha_exemplo ''10/03/2020'' ''Confirmados'' Obito_pelo_COVID19 ''VITORIA''])) =
     nMunicipiosInfectados (relatorio_exemplo []) + 1 \<and>
   nMunicipiosInfectados (estado_final (popula_linhas ext_exemplo (relatorio_exemplo [])
      [linha_exemplo ''10/03/2020'' ''Confirmados'' Obito_pelo_COVID19 ''VITORIA'',
       linha_exemplo ''11/03/2020'' ''Confirmados'' ''Cura'' ''OUTRO ESTADO'',
       linha_exemplo ''12/03/2020'' ''Confirmados'' ''Cura'' ''VITORIA''])) =
     nMunicipiosInfectados (estado_final (popula_linhas ext_exemplo (relatorio_exemplo [])
      [linha_exemplo ''10/03/2020'' ''Confirmados'' Obito_pelo_COVID19 ''VITORIA'',
       linha_exemplo ''11/03/2020'' ''Confirmados'' ''Cura'' ''OUTRO ESTADO'']))"
proof -
  let ?l1 = "linha_exemplo ''10/03/2020'' ''Confirmados'' Obito_pelo_COVID19 ''VITORIA''"
  let ?lm = "linha_exemplo ''11/03/2020'' ''Confirmados'' ''Cura'' ''OUTRO ESTADO''"
  let ?l2 = "linha_exemplo ''12/03/2020'' ''Confirmados'' ''Cura'' ''VITORIA''"
  let ?s = "relatorio_exemplo [] :: nat Relatorio"
  note u = upper_exemplo(4)
  have c1: "Caso_init ext_exemplo ?l1 = Inr (projr (Caso_init ext_exemplo ?l1))"
       "municipio (projr (Caso_init ext_exemplo ?l1)) = PStr ''VITORIA''"
    by (simp_all add: Caso_init_exemplo data_exemplo_dias)
  have c2: "Caso_init ext_exemplo ?l2 = Inr (projr (Caso_init ext_exemplo ?l2))"
       "municipio (projr (Caso_init ext_exemplo ?l2)) = PStr ''VITORIA''"
    by (simp_all add: Caso_init_exemplo data_exemplo_dias)
  have reg: "remove_caracteres_especiais ext_exemplo (upper ext_exemplo ''VITORIA'') \<in> set (MUNICIPIOS ext_exemplo)"
    by (simp add: upper_exemplo)
  have z: "casosMunicipios ?s ''VITORIA'' = Some (Municipio_init ''VITORIA'')"
       "casosConfirmados (Municipio_init ''VITORIA'' :: nat Municipio) = 0"
    by (simp_all add: relatorio_exemplo_def Relatorio_init_def inicializa_dicionario_municipios_def
        Municipio_init_def)
  from primeiro_caso_incrementa_municipios_infectados [OF c1 c2 reg z]
  obtain r1 where r1: "popula_linha ext_exemplo ?s ?l1 = Inr r1"
    and n1: "nMunicipiosInfectados r1 = nMunicipiosInfectados ?s + 1"
    and depois: "\<And>meio r2. popula_linhas ext_exemplo r1 meio = Inr r2 \<Longrightarrow>
              \<exists>r3. popula_linha ext_exemplo r2 ?l2 = Inr r3 \<and>
                    nMunicipiosInfectados r3 = nMunicipiosInfectados r2"
    by blast
  have "\<exists>r2. popula_linhas ext_exemplo ?s [?l1, ?lm] = Inr r2"
    by (simp add: avalia_passagem u)
  then obtain r2 where r2: "popula_linhas ext_exemplo r1 [?lm] = Inr r2"
    using r1 by auto
  from depois [OF r2] obtain r3 where r3: "popula_linha ext_exemplo r2 ?l2 = Inr r3"
    and n3: "nMunicipiosInfectados r3 = nMunicipiosInfectados r2" by blast
  from r1 r2 r3 n1 n3 show ?thesis by (auto split: sum.splits)
qed

text \<open>
  The second of three rows has the date \<open>31/02/2020\<close>, which the reader of dates rejects:
  the pass raises and leaves the report as the first row alone made it.
\<close>

theorem popula_relatorio_falha_em_linha_malformada_witness:
  "\<exists>e. popula_relatorio ext_exemplo (relatorio_exemplo
      [linha_exemplo ''10/03/2020'' ''Confirmados'' ''Cura'' ''VITORIA'',
       linha_exemplo ''31/02/2020'' ''Confirmados'' ''Cura'' ''SERRA'',
       linha_exemplo ''12/03/2020'' ''Confirmados'' ''Cura'' ''SERRA'']) =
     Inl (e, estado_final (popula_linhas ext_exemplo
       (zera_relatorio ext_exemplo (relatorio_exemplo
         [linha_exemplo ''10/03/2020'' ''Confirmados'' ''Cura'' ''VITORIA'',
          linha_exemplo ''31/02/2020'' ''Confirmados'' ''Cura'' ''SERRA'',
          linha_exemplo ''12/03/2020'' ''Confirmados'' ''Cura'' ''SERRA'']))
       [linha_exemplo ''10/03/2020'' ''Confirmados'' ''Cura'' ''VITORIA'']))"
proof -
  let ?a = "linha_exemplo ''10/03/2020'' ''Confirmados'' ''Cura'' ''VITORIA''"
  let ?b = "linha_exemplo ''31/02/2020'' ''Confirmados'' ''Cura'' ''SERRA''"
  let ?c = "linha_exemplo ''12/03/2020'' ''Confirmados'' ''Cura'' ''SERRA''"
  have h1: "linhasRelatorio (relatorio_exemplo [?a, ?b, ?c]) = Some ([?a] @ ?b # [?c])"
    by simp
  have h2: "arrow_get ext_exemplo (?b ! 0) = None \<or> length ?b < 27"
    by (simp add: linha_exemplo_def data_exemplo_dias)
  have "\<exists>r. popula_linhas ext_exemplo
      (zera_relatorio ext_exemplo (relatorio_exemplo [?a, ?b, ?c])) [?a] = Inr r"
    by (simp add: avalia_passagem)
  then obtain r where r: "popula_linhas ext_exemplo
      (zera_relatorio ext_exemplo (relatorio_exemplo [?a, ?b, ?c])) [?a] = Inr r" by blast
  from popula_relatorio_falha_em_linha_malformada [OF h1 h2] r
  obtain e where "popula_relatorio ext_exemplo (relatorio_exemplo [?a, ?b, ?c]) = Inl (e, r)"
    by blast
  with r show ?thesis by simp
qed

text \<open>
  The second of three rows names the municipality \<open>Vitoria\<close>: in upper case it is in the
  registry, but it is not a key of the dictionary.
\<close>

theorem popula_relatorio_indexa_nome_bruto_witness:
  "popula_relatorio ext_exemplo (relatorio_exemplo
      [linha_exemplo ''10/03/2020'' ''Confirmados'' ''Cura'' ''VITORIA'',
       linha_exemplo ''11/03/2020'' ''Confirmados'' ''Cura'' ''Vitoria'',
       linha_exemplo ''12/03/2020'' ''Confirmados'' ''Cura'' ''SERRA'']) =
     Inl (KeyError ''Vitoria'', estado_final (popula_linhas ext_exemplo
       (zera_relatorio ext_exemplo (relatorio_exemplo
         [linha_exemplo ''10/03/2020'' ''Confirmados'' ''Cura'' ''VITORIA'',
          linha_exemplo ''11/03/2020'' ''Confirmados'' ''Cura'' ''Vitoria'',
          linha_exemplo ''12/03/2020'' ''Confirmados'' ''Cura'' ''SERRA'']))
       [linha_exemplo ''10/03/2020'' ''Confirmados'' ''Cura'' ''VITORIA'']))"
proof -
  let ?a = "linha_exemplo ''10/03/2020'' ''Confirmados'' ''Cura'' ''VITORIA''"
  let ?b = "linha_exemplo ''11/03/2020'' ''Confirmados'' ''Cura'' ''Vitoria''"
  let ?c = "linha_exemplo ''12/03/2020'' ''Confirmados'' ''Cura'' ''SERRA''"
  have h1: "linhasRelatorio (relatorio_exemplo [?a, ?b, ?c]) = Some ([?a] @ ?b # [?c])"
    by simp
  have can: "\<forall>k \<in> set (MUNICIPIOS ext_exemplo). remove_caracteres_especiais ext_exemplo (upper ext_exemplo k) = k"
    by (simp add: upper_exemplo)
  have cb: "Caso_init ext_exemplo ?b = Inr (projr (Caso_init ext_exemplo ?b))"
       "municipio (projr (Caso_init ext_exemplo ?b)) = PStr ''Vitoria''"
    by (simp_all add: Caso_init_exemplo data_exemplo_dias)
  have reg: "remove_caracteres_especiais ext_exemplo (upper ext_exemplo ''Vitoria'') \<in> set (MUNICIPIOS ext_exemplo)"
    by (simp add: upper_exemplo)
  have dif: "''Vitoria'' \<noteq> remove_caracteres_especiais ext_exemplo (upper ext_exemplo ''Vitoria'')"
    by (simp add: upper_exemplo)
  have "\<exists>r. popula_linhas ext_exemplo
      (zera_relatorio ext_exemplo (relatorio_exemplo [?a, ?b, ?c])) [?a] = Inr r"
    by (simp add: avalia_passagem)
  then obtain r where r: "popula_linhas ext_exemplo
      (zera_relatorio ext_exemplo (relatorio_exemplo [?a, ?b, ?c])) [?a] = Inr r" by blast
  from popula_relatorio_indexa_nome_bruto [OF h1 dom_relatorio_exemplo can r cb reg] dif
  have "popula_relatorio ext_exemplo (relatorio_exemplo [?a, ?b, ?c]) = Inl (KeyError ''Vitoria'', r)"
    by blast
  with r show ?thesis by simp
qed

lemma leitor_exemplo_campos [simp]:
  "linhasRelatorio (relatorio (leitor_exemplo linhas)) = Some linhas"
  "leitor_linhasRelatorio (leitor_exemplo linhas) = Some linhas"
  by (simp_all add: leitor_exemplo_def)

text \<open>
  Rows of 10, 11 and 12 March 2020 after the first row, all classified \<open>"Confirmados"\<close>:
  up to 11 March the first two are kept, on 11 March the second alone.
\<close>

theorem filtros_confirmados_pela_data_witness:
  "linhasRelatorio (relatorio (estado_final (filtra_casos_ate_dia ext_exemplo
      (leitor_exemplo [cabecalho,
         linha_exemplo ''10/03/2020'' ''Confirmados'' ''Cura'' ''VITORIA'',
         linha_exemplo ''11/03/2020'' ''Confirmados'' ''Cura'' ''SERRA'',
         linha_exemplo ''12/03/2020'' ''Confirmados'' ''Cura'' ''VITORIA''])
      (PStr ''11/03/2020'')))) =
     Some [linha_exemplo ''10/03/2020'' ''Confirmados'' ''Cura'' ''VITORIA'',
           linha_exemplo ''11/03/2020'' ''Confirmados'' ''Cura'' ''SERRA''] \<and>
   linhasRelatorio (relatorio (estado_final (filtra_casos_no_dia ext_exemplo
      (leitor_exemplo [cabecalho,
         linha_exemplo ''10/03/2020'' ''Confirmados'' ''Cura'' ''VITORIA'',
         linha_exemplo ''11/03/2020'' ''Confirmados'' ''Cura'' ''SERRA'',
         linha_exemplo ''12/03/2020'' ''Confirmados'' ''Cura'' ''VITORIA''])
      (PStr ''11/03/2020'')))) =
     Some [linha_exemplo ''11/03/2020'' ''Confirmados'' ''Cura'' ''SERRA'']"
proof -
  let ?a = "linha_exemplo ''10/03/2020'' ''Confirmados'' ''Cura'' ''VITORIA''"
  let ?b = "linha_exemplo ''11/03/2020'' ''Confirmados'' ''Cura'' ''SERRA''"
  let ?c = "linha_exemplo ''12/03/2020'' ''Confirmados'' ''Cura'' ''VITORIA''"
  let ?L = "leitor_exemplo [cabecalho, ?a, ?b, ?c]"
  have h1: "linhasRelatorio (relatorio ?L) \<noteq> None" by simp
  have h2: "linhasRelatorio (relatorio ?L) \<noteq> Some []" by simp
  have h3: "leitor_linhasRelatorio ?L = Some (cabecalho # [?a, ?b, ?c])" by simp
  have h4: "arrow_get_formatos ext_exemplo (PStr ''11/03/2020'') = Some 20200311"
    by (simp add: data_exemplo_dias)
  have d: "?a ! 0 = PStr ''10/03/2020''" "?b ! 0 = PStr ''11/03/2020''" "?c ! 0 = PStr ''12/03/2020''"
    "?a \<noteq> []" "?b \<noteq> []" "?c \<noteq> []"
    "?a ! 1 = PStr ''Confirmados''" "?b ! 1 = PStr ''Confirmados''" "?c ! 1 = PStr ''Confirmados''"
    by (simp_all add: linha_exemplo_def)
  have h5: "\<forall>c \<in> set [?a, ?b, ?c]. c \<noteq> [] \<and> arrow_get_formatos ext_exemplo (c ! 0) \<noteq> None"
    by (simp add: d data_exemplo_dias)
  have k1: "filter (\<lambda>c. c ! 1 = PStr ''Confirmados'' \<and>
                       the (arrow_get_formatos ext_exemplo (c ! 0)) \<le> 20200311) [?a, ?b, ?c]
              = [?a, ?b]"
    by (simp add: data_exemplo_dias linha_exemplo_def)
  have k2: "filter (\<lambda>c. the (arrow_get_formatos ext_exemplo (c ! 0)) = 20200311) [?a, ?b, ?c]
              = [?b]"
    by (simp add: d data_exemplo_dias)
  note t = filtros_confirmados_pela_data [OF h1 h2 h3 h4 h5]
  from t [THEN conjunct1] obtain mantidas where
    m1: "linhasRelatorio (relatorio (estado_final
           (filtra_casos_ate_dia ext_exemplo ?L (PStr ''11/03/2020'')))) = Some mantidas"
    and m2: "\<forall>c \<in> set mantidas. c \<in> set [?a, ?b, ?c]"
    and m3: "filter (\<lambda>c. c ! 1 = PStr ''Confirmados'') mantidas = [?a, ?b]"
    unfolding k1 by blast
  from m2 d(7-9) have "\<forall>c \<in> set mantidas. c ! 1 = PStr ''Confirmados''" by auto
  then have "filter (\<lambda>c. c ! 1 = PStr ''Confirmados'') mantidas = mantidas"
    by (simp only: filter_True)
  with m3 have "mantidas = [?a, ?b]" by simp
  with m1 t [THEN conjunct2, THEN conjunct2] show ?thesis
    unfolding k2 by simp
qed

text \<open>
  Against claim C3 as stated: \<open>filtra_casos_ate_dia\<close> keeps a row of 10 March that is
  classified \<open>"Descartados"\<close>; and when a row after the first has a date that \<open>arrow\<close>
  cannot read, the filter raises and keeps nothing: the reader is left as it was.
\<close>

theorem filtra_casos_ate_dia_mantem_nao_confirmados:
  "linhasRelatorio (relatorio (estado_final (filtra_casos_ate_dia ext_exemplo
      (leitor_exemplo [cabecalho,
         linha_exemplo ''10/03/2020'' ''Descartados'' ''Cura'' ''VITORIA''])
      (PStr ''11/03/2020'')))) =
     Some [linha_exemplo ''10/03/2020'' ''Descartados'' ''Cura'' ''VITORIA''] \<and>
   linha_exemplo ''10/03/2020'' ''Descartados'' ''Cura'' ''VITORIA'' ! 1 = PStr ''Descartados'' \<and>
   filtra_casos_ate_dia ext_exemplo
      (leitor_exemplo [cabecalho,
         linha_exemplo ''10/03/2020'' ''Confirmados'' ''Cura'' ''VITORIA'',
         linha_exemplo ''31/02/2020'' ''Confirmados'' ''Cura'' ''SERRA''])
      (PStr ''11/03/2020'') =
     Inl (ParserError, leitor_exemplo [cabecalho,
         linha_exemplo ''10/03/2020'' ''Confirmados'' ''Cura'' ''VITORIA'',
         linha_exemplo ''31/02/2020'' ''Confirmados'' ''Cura'' ''SERRA''])"
proof -
  let ?a = "linha_exemplo ''10/03/2020'' ''Descartados'' ''Cura'' ''VITORIA''"
  let ?b = "linha_exemplo ''10/03/2020'' ''Confirmados'' ''Cura'' ''VITORIA''"
  let ?c = "linha_exemplo ''31/02/2020'' ''Confirmados'' ''Cura'' ''SERRA''"
  have d: "?a ! 0 = PStr ''10/03/2020''" "?a \<noteq> []" "?a ! 1 = PStr ''Descartados''"
    "?b ! 0 = PStr ''10/03/2020''" "?b \<noteq> []" "?c ! 0 = PStr ''31/02/2020''" "?c \<noteq> []"
    by (simp_all add: linha_exemplo_def)
  have f: "filtra_linhas (\<lambda>d. 20200311 \<ge> d) ext_exemplo [?a] = Inr [?a]"
    by (simp add: d data_exemplo_dias)
  have "\<exists>r. popula_relatorio ext_exemplo
           ((relatorio_exemplo [cabecalho, ?a])\<lparr> linhasRelatorio := Some [?a] \<rparr>) = Inr r \<and>
          linhasRelatorio r = Some [?a]"
    by (simp add: avalia_passagem)
  then obtain r where r: "popula_relatorio ext_exemplo
           ((relatorio_exemplo [cabecalho, ?a])\<lparr> linhasRelatorio := Some [?a] \<rparr>) = Inr r"
     and l: "linhasRelatorio r = Some [?a]" by blast
  have "filtra_casos_ate_dia ext_exemplo (leitor_exemplo [cabecalho, ?a]) (PStr ''11/03/2020'')
          = Inr ((leitor_exemplo [cabecalho, ?a])\<lparr> relatorio := r \<rparr>)"
    using f r by (simp add: filtra_casos_ate_dia_def filtra_casos_def data_exemplo_dias
        leitor_exemplo_def)
  moreover have "filtra_casos_ate_dia ext_exemplo (leitor_exemplo [cabecalho, ?b, ?c])
          (PStr ''11/03/2020'') = Inl (ParserError, leitor_exemplo [cabecalho, ?b, ?c])"
    by (simp add: filtra_casos_ate_dia_def filtra_casos_def data_exemplo_dias d)
  ultimately show ?thesis using l d(3) by simp
qed

text \<open>
  Lookups in the report of the examples: a name with white space around it, a hyphen, a
  full stop and lower-case letters finds \<open>VITORIA\<close>; a name that is not in the registry
  raises the error whose message carries it.
\<close>

theorem busca_casos_municipio_normaliza_ou_falha_witness:
  "busca_casos_municipio ext_exemplo (relatorio_exemplo []) '' Vi-toria. '' =
     Inr (Municipio_init ''VITORIA'') \<and>
   busca_casos_municipio ext_exemplo (relatorio_exemplo []) ''Vila Velha'' =
     Inl (RelatorioError (msg_nao_encontrado ''Vila Velha'')) \<and>
   contem ''Vila Velha'' (msg_nao_encontrado ''Vila Velha'')"
proof -
  let ?R = "relatorio_exemplo [] :: nat Relatorio"
  have m: "casosMunicipios ?R ''VITORIA'' = Some (Municipio_init ''VITORIA'')"
          "casosMunicipios ?R ''VILA VELHA'' = None"
    by (simp_all add: relatorio_exemplo_def Relatorio_init_def inicializa_dicionario_municipios_def)
  have u: "map upper_ascii ''Vitoria'' = ''VITORIA''"
          "map upper_ascii ''Vila Velha'' = ''VILA VELHA''"
    by code_simp+
  have a: "list_all ascii ('' '' @ ''Vitoria'' @ '' '')" "list_all isspace '' ''"
          "\<not> isspace (hd ''Vitoria'')" "\<not> isspace (last ''Vitoria'')"
          "list_all ascii ([] @ ''Vila Velha'' @ [])"
          "\<not> isspace (hd ''Vila Velha'')" "\<not> isspace (last ''Vila Velha'')"
    by code_simp+
  have r1: "remove_caracteres_especiais ext_exemplo '' Vi-toria. '' = '' '' @ ''Vitoria'' @ '' ''"
    by simp
  have r2: "remove_caracteres_especiais ext_exemplo ''Vila Velha'' = [] @ ''Vila Velha'' @ []"
    by simp
  note t1 = busca_casos_municipio_normaliza_ou_falha
    [of ext_exemplo ?R "'' Vi-toria. ''" "'' ''" "''Vitoria''" "'' ''"]
  note t2 = busca_casos_municipio_normaliza_ou_falha
    [of ext_exemplo ?R "''Vila Velha''" "[]" "''Vila Velha''" "[]"]
  from t1 r1 a(1-4) have k1:
    "strip ext_exemplo (upper ext_exemplo (remove_caracteres_especiais ext_exemplo '' Vi-toria. ''))
       = ''VITORIA''"
    unfolding u by blast
  from t2 r2 a(5-7) have k2:
    "strip ext_exemplo (upper ext_exemplo (remove_caracteres_especiais ext_exemplo ''Vila Velha''))
       = ''VILA VELHA''"
    unfolding u by simp
  from t1 [THEN conjunct1] have "busca_casos_municipio ext_exemplo ?R '' Vi-toria. '' =
     Inr (Municipio_init ''VITORIA'')"
    unfolding k1 m by simp
  moreover from t2 [THEN conjunct1] have "busca_casos_municipio ext_exemplo ?R ''Vila Velha'' =
     Inl (RelatorioError (msg_nao_encontrado ''Vila Velha''))"
    unfolding k2 m by simp
  moreover from t2 have "contem ''Vila Velha'' (msg_nao_encontrado ''Vila Velha'')" by blast
  ultimately show ?thesis by blast
qed

end
